theory Spec2Isabelle
  imports Main "HOL-Library.Word"
begin

section \<open>JavaScript values as the HTTP client handles them\<close>

text \<open>
  The client of \<^verbatim>\<open>src/lib/services/http.ts\<close> passes values of type \<^verbatim>\<open>any\<close> around: request
  bodies, query parameter values, thrown failures, transport responses. They are one
  datatype here. A number is an integer that the number type holds exactly: a signed
  integer of 54 bits, from \<open>- 2 ^ 53\<close> to \<open>2 ^ 53 - 1\<close> (no fractions, no NaN, no larger
  magnitudes; \<open>sint\<close> reads its value). A string is a byte sequence: the UTF-8 encoding
  of its text, with a lone surrogate code unit, which UTF-8 proper does not encode, held
  as the three bytes its code point would give (\<^verbatim>\<open>ED A0..BF 80..BF\<close>); no string is joined
  here so that a lone high and a lone low surrogate meet. An object is the list of its
  own properties, keys distinct. \<open>JResponse st js bl\<close> is a transport \<^verbatim>\<open>Response\<close> with status \<open>st\<close>, the outcome \<open>js\<close>
  of its \<^verbatim>\<open>json()\<close> (\<open>Inl\<close> the rejection, \<open>Inr\<close> the parsed body) and the outcome \<open>bl\<close> of its
  \<^verbatim>\<open>blob()\<close>. A thrown failure is a \<open>jsval\<close> on the left of a sum.
\<close>

type_synonym js_int = "54 word"

datatype jsval =
    JUndefined
  | JNull
  | JBool bool
  | JNum js_int
  | JStr string
  | JArr "jsval list"
  | JObj "(string \<times> jsval) list"
  | JFormData "(string \<times> jsval) list"
  | JResponse nat "jsval + jsval" "jsval + string"

type_synonym Response = "nat \<times> (jsval + jsval) \<times> (jsval + string)"

definition Response_js :: "Response \<Rightarrow> jsval" where
  "Response_js r = (case r of (st, js, bl) \<Rightarrow> JResponse st js bl)"

text \<open>\<^verbatim>\<open>response.ok\<close>: the status is in the range 200 to 299.\<close>

definition ok :: "nat \<Rightarrow> bool" where
  "ok st = (200 \<le> st \<and> st < 300)"

text \<open>Truthiness, as \<^verbatim>\<open>if (v)\<close>, \<^verbatim>\<open>v && ...\<close> and \<^verbatim>\<open>v || ...\<close> test it.\<close>

fun truthy :: "jsval \<Rightarrow> bool" where
  "truthy JUndefined = False"
| "truthy JNull = False"
| "truthy (JBool b) = b"
| "truthy (JNum i) = (i \<noteq> 0)"
| "truthy (JStr s) = (s \<noteq> [])"
| "truthy (JArr xs) = True"
| "truthy (JObj kvs) = True"
| "truthy (JFormData kvs) = True"
| "truthy (JResponse st js bl) = True"

text \<open>\<^verbatim>\<open>a || b\<close>\<close>

definition js_or :: "jsval \<Rightarrow> jsval \<Rightarrow> jsval" where
  "js_or a b = (if truthy a then a else b)"

text \<open>Decimal digits of a natural number, for \<^verbatim>\<open>String(n)\<close> and \<^verbatim>\<open>n.toString()\<close>.\<close>

definition digit_char :: "nat \<Rightarrow> char" where
  "digit_char d = ''0123456789'' ! d"

function digits :: "nat \<Rightarrow> string" where
  "digits n = (if n < 10 then [digit_char n] else digits (n div 10) @ [digit_char (n mod 10)])"
  by pat_completeness auto
termination
  by (relation "measure id") auto

declare digits.simps [simp del]

fun join :: "string \<Rightarrow> string list \<Rightarrow> string" where
  "join sep [] = []"
| "join sep [x] = x"
| "join sep (x # y # ys) = x @ sep @ join sep (y # ys)"

text \<open>
  \<^verbatim>\<open>String(v)\<close>, which is also what a template literal \<^verbatim>\<open>`${v}`\<close> inserts. An array joins
  its elements with commas, \<^verbatim>\<open>null\<close> and \<^verbatim>\<open>undefined\<close> elements as the empty string.
\<close>

fun String :: "jsval \<Rightarrow> string" where
  "String JUndefined = ''undefined''"
| "String JNull = ''null''"
| "String (JBool b) = (if b then ''true'' else ''false'')"
| "String (JNum i) =
     (if sint i < 0 then ''-'' @ digits (nat (- sint i)) else digits (nat (sint i)))"
| "String (JStr s) = s"
| "String (JArr xs) =
     join '','' (map (\<lambda>x. if x = JNull \<or> x = JUndefined then [] else String x) xs)"
| "String (JObj kvs) = ''[object Object]''"
| "String (JFormData kvs) = ''[object FormData]''"
| "String (JResponse st js bl) = ''[object Response]''"

text \<open>
  The failures the engine itself raises. Their message texts differ between engines; the
  model fixes one.
\<close>

definition TypeError :: "string \<Rightarrow> jsval" where
  "TypeError msg = JObj [(''name'', JStr ''TypeError''), (''message'', JStr msg)]"

definition SyntaxError :: "string \<Rightarrow> jsval" where
  "SyntaxError msg = JObj [(''name'', JStr ''SyntaxError''), (''message'', JStr msg)]"

definition ReferenceError :: "string \<Rightarrow> jsval" where
  "ReferenceError msg = JObj [(''name'', JStr ''ReferenceError''), (''message'', JStr msg)]"

definition DOMException :: "string \<Rightarrow> string \<Rightarrow> jsval" where
  "DOMException nm msg = JObj [(''name'', JStr nm), (''message'', JStr msg)]"

text \<open>\<^verbatim>\<open>new Error(m)\<close>: the message is \<^verbatim>\<open>String(m)\<close>; there is no \<^verbatim>\<open>code\<close> and no \<^verbatim>\<open>status\<close>.\<close>

definition new_Error :: "jsval \<Rightarrow> jsval" where
  "new_Error m = JObj [(''name'', JStr ''Error''), (''message'', JStr (String m))]"

text \<open>
  A property read \<^verbatim>\<open>v.k\<close>. Reading a property of \<^verbatim>\<open>undefined\<close> or \<^verbatim>\<open>null\<close> throws a
  TypeError. An object gives its own property or \<^verbatim>\<open>undefined\<close>. A Response has \<^verbatim>\<open>status\<close> and
  \<^verbatim>\<open>ok\<close>. The other values have none of the properties the client reads (\<^verbatim>\<open>code\<close>,
  \<^verbatim>\<open>message\<close>, \<^verbatim>\<open>status\<close>).
\<close>

fun get_prop :: "jsval \<Rightarrow> string \<Rightarrow> jsval + jsval" where
  "get_prop JUndefined k = Inl (TypeError ''Cannot read properties of undefined'')"
| "get_prop JNull k = Inl (TypeError ''Cannot read properties of null'')"
| "get_prop (JObj kvs) k = Inr (case map_of kvs k of None \<Rightarrow> JUndefined | Some v \<Rightarrow> v)"
| "get_prop (JResponse st js bl) k =
     Inr (if k = ''status'' then JNum (of_nat st)
          else if k = ''ok'' then JBool (ok st) else JUndefined)"
| "get_prop (JBool b) k = Inr JUndefined"
| "get_prop (JNum i) k = Inr JUndefined"
| "get_prop (JStr s) k = Inr JUndefined"
| "get_prop (JArr xs) k = Inr JUndefined"
| "get_prop (JFormData kvs) k = Inr JUndefined"

text \<open>\<^verbatim>\<open>s.startsWith(p)\<close> and \<^verbatim>\<open>s.includes(p)\<close> on strings.\<close>

definition startsWith :: "string \<Rightarrow> string \<Rightarrow> bool" where
  "startsWith s p = (take (length p) s = p)"

fun includes_str :: "string \<Rightarrow> string \<Rightarrow> bool" where
  "includes_str [] p = (p = [])"
| "includes_str (c # cs) p = (startsWith (c # cs) p \<or> includes_str cs p)"


section \<open>Constants (\<^verbatim>\<open>src/lib/constants\<close>)\<close>

text \<open>
  \<^verbatim>\<open>API_BASE_URL = process.env.NEXT_PUBLIC_API_BASE_URL || "/api"\<close>; the environment variable is
  the argument.
\<close>

definition API_BASE_URL :: "string option \<Rightarrow> string" where
  "API_BASE_URL env =
     (case env of None \<Rightarrow> ''/api'' | Some s \<Rightarrow> if s \<noteq> [] then s else ''/api'')"

definition STORAGE_KEYS_TOKEN :: string where
  "STORAGE_KEYS_TOKEN = ''auth_token''"

text \<open>
  The texts of \<^verbatim>\<open>ERROR_MESSAGES\<close> are Chinese; each constant is the UTF-8 encoding of the
  source literal (\<^verbatim>\<open>SERVER_ERROR\<close>: internal server error, retry later; \<^verbatim>\<open>UNAUTHORIZED\<close>:
  unauthorized access, log in again; \<^verbatim>\<open>FORBIDDEN\<close>: insufficient permission;
  \<^verbatim>\<open>UNKNOWN_ERROR\<close>: unknown error, contact the administrator).
\<close>

definition ERROR_MESSAGES_SERVER_ERROR :: string where
  "ERROR_MESSAGES_SERVER_ERROR =
     [CHR 0xE6, CHR 0x9C, CHR 0x8D, CHR 0xE5, CHR 0x8A, CHR 0xA1, CHR 0xE5, CHR 0x99, CHR 0xA8,
      CHR 0xE5, CHR 0x86, CHR 0x85, CHR 0xE9, CHR 0x83, CHR 0xA8, CHR 0xE9, CHR 0x94, CHR 0x99,
      CHR 0xE8, CHR 0xAF, CHR 0xAF, CHR 0xEF, CHR 0xBC, CHR 0x8C, CHR 0xE8, CHR 0xAF, CHR 0xB7,
      CHR 0xE7, CHR 0xA8, CHR 0x8D, CHR 0xE5, CHR 0x90, CHR 0x8E, CHR 0xE9, CHR 0x87, CHR 0x8D,
      CHR 0xE8, CHR 0xAF, CHR 0x95]"

definition ERROR_MESSAGES_UNAUTHORIZED :: string where
  "ERROR_MESSAGES_UNAUTHORIZED =
     [CHR 0xE6, CHR 0x9C, CHR 0xAA, CHR 0xE6, CHR 0x8E, CHR 0x88, CHR 0xE6, CHR 0x9D, CHR 0x83,
      CHR 0xE8, CHR 0xAE, CHR 0xBF, CHR 0xE9, CHR 0x97, CHR 0xAE, CHR 0xEF, CHR 0xBC, CHR 0x8C,
      CHR 0xE8, CHR 0xAF, CHR 0xB7, CHR 0xE9, CHR 0x87, CHR 0x8D, CHR 0xE6, CHR 0x96, CHR 0xB0,
      CHR 0xE7, CHR 0x99, CHR 0xBB, CHR 0xE5, CHR 0xBD, CHR 0x95]"

definition ERROR_MESSAGES_FORBIDDEN :: string where
  "ERROR_MESSAGES_FORBIDDEN =
     [CHR 0xE6, CHR 0x9D, CHR 0x83, CHR 0xE9, CHR 0x99, CHR 0x90, CHR 0xE4, CHR 0xB8, CHR 0x8D,
      CHR 0xE8, CHR 0xB6, CHR 0xB3, CHR 0xEF, CHR 0xBC, CHR 0x8C, CHR 0xE6, CHR 0x97, CHR 0xA0,
      CHR 0xE6, CHR 0xB3, CHR 0x95, CHR 0xE8, CHR 0xAE, CHR 0xBF, CHR 0xE9, CHR 0x97, CHR 0xAE,
      CHR 0xE8, CHR 0xAF, CHR 0xA5, CHR 0xE8, CHR 0xB5, CHR 0x84, CHR 0xE6, CHR 0xBA, CHR 0x90]"

definition ERROR_MESSAGES_UNKNOWN_ERROR :: string where
  "ERROR_MESSAGES_UNKNOWN_ERROR =
     [CHR 0xE6, CHR 0x9C, CHR 0xAA, CHR 0xE7, CHR 0x9F, CHR 0xA5, CHR 0xE9, CHR 0x94, CHR 0x99,
      CHR 0xE8, CHR 0xAF, CHR 0xAF, CHR 0xEF, CHR 0xBC, CHR 0x8C, CHR 0xE8, CHR 0xAF, CHR 0xB7,
      CHR 0xE8, CHR 0x81, CHR 0x94, CHR 0xE7, CHR 0xB3, CHR 0xBB, CHR 0xE7, CHR 0xAE, CHR 0xA1,
      CHR 0xE7, CHR 0x90, CHR 0x86, CHR 0xE5, CHR 0x91, CHR 0x98]"

text \<open>The notice of \<^verbatim>\<open>download\<close> (file download failed), UTF-8 encoded.\<close>

definition DOWNLOAD_FAILED_NOTICE :: string where
  "DOWNLOAD_FAILED_NOTICE =
     [CHR 0xE6, CHR 0x96, CHR 0x87, CHR 0xE4, CHR 0xBB, CHR 0xB6, CHR 0xE4, CHR 0xB8, CHR 0x8B,
      CHR 0xE8, CHR 0xBD, CHR 0xBD, CHR 0xE5, CHR 0xA4, CHR 0xB1, CHR 0xE8, CHR 0xB4, CHR 0xA5]"


section \<open>The browser state the client reads and writes\<close>

text \<open>
  \<open>localStorage\<close> holds each item as the value \<^verbatim>\<open>JSON.parse\<close> gives for its text (an item whose
  text is empty or is not JSON reads like a missing one). \<open>window_defined\<close> is
  \<^verbatim>\<open>typeof window !== "undefined"\<close>; \<open>pathname\<close> is \<^verbatim>\<open>window.location.pathname\<close>; \<open>href_assigned\<close>
  lists the assignments to \<^verbatim>\<open>window.location.href\<close> (the redirects), \<open>message_errors\<close> the
  calls of \<^verbatim>\<open>message.error\<close> (the notices shown to the user), oldest first.
  \<open>objectURLs\<close> maps each live object URL to its blob, \<open>objectURL_count\<close> numbers them.
  \<open>document_body\<close> is the list of the anchors appended to \<^verbatim>\<open>document.body\<close>, \<open>None\<close> when
  \<^verbatim>\<open>document.body\<close> is \<^verbatim>\<open>null\<close>; \<open>clicked\<close> lists the anchors clicked (the saves triggered).
\<close>

record anchor =
  href :: string
  download_attr :: string

record world =
  localStorage :: "string \<rightharpoonup> jsval"
  window_defined :: bool
  pathname :: string
  href_assigned :: "string list"
  message_errors :: "jsval list"
  objectURLs :: "string \<rightharpoonup> string"
  objectURL_count :: nat
  document_body :: "anchor list option"
  clicked :: "anchor list"

text \<open>\<^verbatim>\<open>storageUtils.get(key)\<close> and \<^verbatim>\<open>storageUtils.remove(key)\<close> of \<^verbatim>\<open>src/lib/utils/index.ts\<close>.\<close>

definition storageUtils_get :: "world \<Rightarrow> string \<Rightarrow> jsval" where
  "storageUtils_get w key = (case localStorage w key of None \<Rightarrow> JNull | Some v \<Rightarrow> v)"

definition storageUtils_remove :: "string \<Rightarrow> world \<Rightarrow> world" where
  "storageUtils_remove key w = w\<lparr>localStorage := (localStorage w)(key := None)\<rparr>"

definition message_error :: "jsval \<Rightarrow> world \<Rightarrow> world" where
  "message_error m w = w\<lparr>message_errors := message_errors w @ [m]\<rparr>"


section \<open>Request descriptors, transport options and the client\<close>

datatype Method = GET | POST | PUT | DELETE | PATCH

text \<open>
  \<^verbatim>\<open>interface RequestConfig\<close>. An optional field that is absent is \<open>None\<close> (an absent \<open>data\<close> is
  \<open>JUndefined\<close>). \<open>params\<close> lists the entries of the parameter object in the order
  \<^verbatim>\<open>Object.entries\<close> gives them.
\<close>

record RequestConfig =
  url :: string
  http_method :: "Method option"
  params :: "(string \<times> jsval) list option"
  data :: jsval
  headers :: "(string \<rightharpoonup> string) option"
  timeout :: "int option"

text \<open>
  The body handed to the transport: the FormData itself, or the text
  \<^verbatim>\<open>JSON.stringify(data)\<close>, kept symbolic.
\<close>

datatype BodyInit = Body_FormData "(string \<times> jsval) list" | Body_JSON_stringify jsval

text \<open>
  \<^verbatim>\<open>RequestInit\<close>, the options of \<^verbatim>\<open>fetch\<close>. \<open>signal = Some ms\<close> is \<^verbatim>\<open>AbortSignal.timeout(ms)\<close>.
\<close>

record RequestInit =
  init_method :: "Method option"
  init_headers :: "string \<rightharpoonup> string"
  signal :: "int option"
  body :: "BodyInit option"

text \<open>
  The transport \<^verbatim>\<open>fetch(url, options)\<close> is a parameter of the model: it resolves with a
  Response or rejects with a failure, and may change the world.
\<close>

type_synonym transport = "string \<Rightarrow> RequestInit \<Rightarrow> world \<Rightarrow> (jsval + Response) \<times> world"

text \<open>
  The three interceptor types. An interceptor returns or throws, and may change the
  world; awaiting an asynchronous interceptor is the sequencing of these state
  transformers. An interceptor is taken not to change the object it is handed, other
  than through its result.
\<close>

type_synonym RequestInterceptor = "RequestConfig \<Rightarrow> world \<Rightarrow> (jsval + RequestConfig) \<times> world"
type_synonym ResponseInterceptor = "jsval \<Rightarrow> world \<Rightarrow> (jsval + jsval) \<times> world"
type_synonym ErrorInterceptor = "jsval \<Rightarrow> world \<Rightarrow> (jsval + jsval) \<times> world"

record HttpClient =
  baseURL :: string
  this_timeout :: int
  requestInterceptors :: "RequestInterceptor list"
  responseInterceptors :: "ResponseInterceptor list"
  errorInterceptors :: "ErrorInterceptor list"


section \<open>Query strings: \<^verbatim>\<open>URLSearchParams\<close>\<close>

text \<open>
  \<^verbatim>\<open>URLSearchParams\<close> is the platform's; the model follows the URL and Encoding standards.
  A parameter list is a list of name and value pairs of scalar value strings: \<^verbatim>\<open>append\<close>
  and \<^verbatim>\<open>set\<close> convert their arguments to \<^verbatim>\<open>USVString\<close>, which replaces every lone surrogate
  by U+FFFD. \<^verbatim>\<open>toString\<close> is the \<^verbatim>\<open>application/x-www-form-urlencoded\<close> serializer over the
  UTF-8 bytes: a space becomes \<^verbatim>\<open>+\<close>, the bytes of letters, digits and \<^verbatim>\<open>* - . _\<close> stay, every
  other byte becomes \<^verbatim>\<open>%\<close> and two upper-case hexadecimal digits. The parser of the same
  standard splits at \<^verbatim>\<open>&\<close>, then at the first \<^verbatim>\<open>=\<close>, turns \<^verbatim>\<open>+\<close> into a space,
  percent-decodes to bytes and decodes the bytes as UTF-8, every ill-formed sequence
  giving U+FFFD.
\<close>

subsection \<open>UTF-8\<close>

text \<open>
  The UTF-8 encoder of the Encoding standard, on code points, and its UTF-8 decoder, on
  bytes. The decoder keeps the code point read so far, the number of bytes it still
  needs and the bounds of the next byte; a byte outside the bounds is an error (U+FFFD)
  and is read again in the initial state; input that ends inside a sequence is an
  error.
\<close>

definition utf8_encode_cp :: "nat \<Rightarrow> nat list" where
  "utf8_encode_cp cp =
     (if cp \<le> 0x7F then [cp]
      else if cp \<le> 0x7FF then [0xC0 + cp div 64, 0x80 + cp mod 64]
      else if cp \<le> 0xFFFF
        then [0xE0 + cp div 4096, 0x80 + cp div 64 mod 64, 0x80 + cp mod 64]
      else [0xF0 + cp div 262144, 0x80 + cp div 4096 mod 64, 0x80 + cp div 64 mod 64,
            0x80 + cp mod 64])"

definition utf8_encode :: "nat list \<Rightarrow> string" where
  "utf8_encode cps = map char_of (concat (map utf8_encode_cp cps))"

datatype utf8_step = Emit nat | Lead nat nat nat nat | Invalid

definition utf8_first :: "nat \<Rightarrow> utf8_step" where
  "utf8_first b =
     (if b \<le> 0x7F then Emit b
      else if 0xC2 \<le> b \<and> b \<le> 0xDF then Lead (b mod 32) 1 0x80 0xBF
      else if 0xE0 \<le> b \<and> b \<le> 0xEF
        then Lead (b mod 16) 2 (if b = 0xE0 then 0xA0 else 0x80)
               (if b = 0xED then 0x9F else 0xBF)
      else if 0xF0 \<le> b \<and> b \<le> 0xF4
        then Lead (b mod 8) 3 (if b = 0xF0 then 0x90 else 0x80)
               (if b = 0xF4 then 0x8F else 0xBF)
      else Invalid)"

fun utf8_decoder :: "nat \<Rightarrow> nat \<Rightarrow> nat \<Rightarrow> nat \<Rightarrow> nat list \<Rightarrow> nat list" where
  "utf8_decoder cp needed lower upper [] = (if needed \<noteq> 0 then [0xFFFD] else [])"
| "utf8_decoder cp needed lower upper (b # bs) =
     (if needed \<noteq> 0 \<and> lower \<le> b \<and> b \<le> upper
      then (if needed = 1 then (cp * 64 + b mod 64) # utf8_decoder 0 0 0x80 0xBF bs
            else utf8_decoder (cp * 64 + b mod 64) (needed - 1) 0x80 0xBF bs)
      else (if needed \<noteq> 0 then [0xFFFD] else []) @
           (case utf8_first b of
              Emit c \<Rightarrow> c # utf8_decoder 0 0 0x80 0xBF bs
            | Lead c n l u \<Rightarrow> utf8_decoder c n l u bs
            | Invalid \<Rightarrow> 0xFFFD # utf8_decoder 0 0 0x80 0xBF bs))"

definition utf8_decode :: "string \<Rightarrow> nat list" where
  "utf8_decode s = utf8_decoder 0 0 0x80 0xBF (map (of_char :: char \<Rightarrow> nat) s)"

text \<open>
  The conversion to \<^verbatim>\<open>USVString\<close>: the three bytes that hold a lone surrogate become the
  three bytes of U+FFFD.
\<close>

fun USVString :: "string \<Rightarrow> string" where
  "USVString (b1 # b2 # b3 # bs) =
     (if b1 = CHR 0xED \<and> 0xA0 \<le> (of_char b2 :: nat) \<and> (of_char b2 :: nat) \<le> 0xBF
      then CHR 0xEF # CHR 0xBF # CHR 0xBD # USVString bs
      else b1 # USVString (b2 # b3 # bs))"
| "USVString bs = bs"

subsection \<open>Parameter lists, serializer and parser\<close>

type_synonym URLSearchParams = "(string \<times> string) list"

definition URLSearchParams_append :: "URLSearchParams \<Rightarrow> string \<Rightarrow> string \<Rightarrow> URLSearchParams" where
  "URLSearchParams_append sp k v = sp @ [(USVString k, USVString v)]"

fun URLSearchParams_set_usv :: "URLSearchParams \<Rightarrow> string \<Rightarrow> string \<Rightarrow> URLSearchParams" where
  "URLSearchParams_set_usv [] k v = [(k, v)]"
| "URLSearchParams_set_usv (p # sp) k v =
     (if fst p = k then (k, v) # filter (\<lambda>q. fst q \<noteq> k) sp
      else p # URLSearchParams_set_usv sp k v)"

definition URLSearchParams_set :: "URLSearchParams \<Rightarrow> string \<Rightarrow> string \<Rightarrow> URLSearchParams" where
  "URLSearchParams_set sp k v = URLSearchParams_set_usv sp (USVString k) (USVString v)"

definition is_alnum :: "char \<Rightarrow> bool" where
  "is_alnum c = (let n = (of_char c :: nat) in
     (48 \<le> n \<and> n \<le> 57) \<or> (65 \<le> n \<and> n \<le> 90) \<or> (97 \<le> n \<and> n \<le> 122))"

definition urlencoded_keep :: "char \<Rightarrow> bool" where
  "urlencoded_keep c =
     (is_alnum c \<or> c = CHR ''*'' \<or> c = CHR ''-'' \<or> c = CHR ''.'' \<or> c = CHR ''_'')"

definition hex_digit :: "nat \<Rightarrow> char" where
  "hex_digit d = ''0123456789ABCDEF'' ! d"

definition urlencoded_byte :: "char \<Rightarrow> string" where
  "urlencoded_byte c =
     (if c = CHR '' '' then ''+''
      else if urlencoded_keep c then [c]
      else [CHR ''%'', hex_digit ((of_char c :: nat) div 16), hex_digit ((of_char c :: nat) mod 16)])"

definition urlencoded_string :: "string \<Rightarrow> string" where
  "urlencoded_string s = concat (map urlencoded_byte s)"

definition URLSearchParams_toString :: "URLSearchParams \<Rightarrow> string" where
  "URLSearchParams_toString sp =
     join ''&'' (map (\<lambda>p. urlencoded_string (fst p) @ ''='' @ urlencoded_string (snd p)) sp)"

definition is_hex :: "char \<Rightarrow> bool" where
  "is_hex c = (let n = (of_char c :: nat) in
     (48 \<le> n \<and> n \<le> 57) \<or> (65 \<le> n \<and> n \<le> 70) \<or> (97 \<le> n \<and> n \<le> 102))"

definition hex_val :: "char \<Rightarrow> nat" where
  "hex_val c = (let n = (of_char c :: nat) in
     if n \<le> 57 then n - 48 else if n \<le> 70 then n - 55 else n - 87)"

fun percent_decode :: "string \<Rightarrow> string" where
  "percent_decode (c # h # l # cs) =
     (if c = CHR ''%'' \<and> is_hex h \<and> is_hex l
      then char_of (16 * hex_val h + hex_val l) # percent_decode cs
      else c # percent_decode (h # l # cs))"
| "percent_decode [c, h] = c # percent_decode [h]"
| "percent_decode [c] = [c]"
| "percent_decode [] = []"

definition plus_to_space :: "string \<Rightarrow> string" where
  "plus_to_space s = map (\<lambda>c. if c = CHR ''+'' then CHR '' '' else c) s"

fun split_on :: "char \<Rightarrow> string \<Rightarrow> string list" where
  "split_on d [] = [[]]"
| "split_on d (c # cs) =
     (if c = d then [] # split_on d cs
      else (case split_on d cs of [] \<Rightarrow> [[c]] | x # xs \<Rightarrow> (c # x) # xs))"

text \<open>
  The string the parser gives for a name or a value: the bytes percent-decoded, then
  decoded as UTF-8 (held, like every string here, as the UTF-8 bytes of the result).
\<close>

definition urlencoded_decode :: "string \<Rightarrow> string" where
  "urlencoded_decode bytes = utf8_encode (utf8_decode (percent_decode (plus_to_space bytes)))"

definition urlencoded_parse_pair :: "string \<Rightarrow> string \<times> string" where
  "urlencoded_parse_pair bytes =
     (let name = takeWhile (\<lambda>c. c \<noteq> CHR ''='') bytes;
          val = drop (Suc (length name)) bytes
      in (urlencoded_decode name, urlencoded_decode val))"

definition urlencoded_parse :: "string \<Rightarrow> URLSearchParams" where
  "urlencoded_parse s = map urlencoded_parse_pair (filter (\<lambda>b. b \<noteq> []) (split_on CHR ''&'' s))"


section \<open>\<^verbatim>\<open>HttpClient.buildURL\<close>\<close>

text \<open>
  The parameters kept are those whose value is not \<^verbatim>\<open>null\<close>, not \<^verbatim>\<open>undefined\<close> and not the
  empty string, each appended with \<^verbatim>\<open>String(value)\<close> (\<^verbatim>\<open>append\<close> converts the name and the
  string to scalar value strings).
\<close>

definition buildURL_searchParams :: "(string \<times> jsval) list \<Rightarrow> URLSearchParams" where
  "buildURL_searchParams ps =
     foldl (\<lambda>searchParams kv.
              if snd kv \<noteq> JNull \<and> snd kv \<noteq> JUndefined \<and> snd kv \<noteq> JStr []
              then URLSearchParams_append searchParams (fst kv) (String (snd kv))
              else searchParams) [] ps"

definition buildURL_fullURL :: "HttpClient \<Rightarrow> string \<Rightarrow> string" where
  "buildURL_fullURL this u = (if startsWith u ''http'' then u else baseURL this @ u)"

definition buildURL :: "HttpClient \<Rightarrow> string \<Rightarrow> (string \<times> jsval) list option \<Rightarrow> string" where
  "buildURL this u ps =
     (let fullURL = buildURL_fullURL this u in
      case ps of
        None \<Rightarrow> fullURL
      | Some entries \<Rightarrow>
          (let queryString = URLSearchParams_toString (buildURL_searchParams entries)
           in if queryString \<noteq> [] then fullURL @ ''?'' @ queryString else fullURL))"


section \<open>The default interceptors (\<^verbatim>\<open>setupDefaultInterceptors\<close>)\<close>

text \<open>
  The request interceptor adds \<^verbatim>\<open>Authorization: Bearer <token>\<close> to the headers when
  \<^verbatim>\<open>storageUtils.get(STORAGE_KEYS.TOKEN)\<close> is truthy.
\<close>

definition headers_of :: "RequestConfig \<Rightarrow> (string \<rightharpoonup> string)" where
  "headers_of config = (case headers config of None \<Rightarrow> Map.empty | Some h \<Rightarrow> h)"

definition defaultRequestInterceptor :: RequestInterceptor where
  "defaultRequestInterceptor config w =
     (let token = storageUtils_get w STORAGE_KEYS_TOKEN in
      if truthy token
      then (Inr (config\<lparr>headers :=
                   Some ((headers_of config)(''Authorization'' \<mapsto> ''Bearer '' @ String token))\<rparr>), w)
      else (Inr config, w))"

text \<open>
  The response interceptor: a Response is parsed with \<^verbatim>\<open>json()\<close> first; then a status that
  is not ok throws \<^verbatim>\<open>new Error(data.message || ERROR_MESSAGES.SERVER_ERROR)\<close>, an ok status
  returns the parsed data. Anything that is not a Response is returned as it is.
\<close>

definition defaultResponseInterceptor :: ResponseInterceptor where
  "defaultResponseInterceptor response w =
     (case response of
        JResponse st js bl \<Rightarrow>
          (case js of
             Inl e \<Rightarrow> (Inl e, w)
           | Inr d \<Rightarrow>
               if \<not> ok st
               then (case get_prop d ''message'' of
                       Inl e \<Rightarrow> (Inl e, w)
                     | Inr m \<Rightarrow>
                         (Inl (new_Error (js_or m (JStr ERROR_MESSAGES_SERVER_ERROR))), w))
               else (Inr d, w))
      | _ \<Rightarrow> (Inr response, w))"

text \<open>
  The error interceptor branches on \<^verbatim>\<open>error.status\<close>: 401 removes the token, assigns
  \<^verbatim>\<open>window.location.href = "/login"\<close> unless the pathname includes \<^verbatim>\<open>/login\<close>, and shows the
  unauthorized notice; 403 shows the forbidden notice; anything else shows
  \<^verbatim>\<open>error.message || ERROR_MESSAGES.UNKNOWN_ERROR\<close>. It always rethrows the error.
\<close>

definition defaultErrorInterceptor :: ErrorInterceptor where
  "defaultErrorInterceptor error w =
     (case get_prop error ''status'' of
        Inl e \<Rightarrow> (Inl e, w)
      | Inr st \<Rightarrow>
          if st = JNum 401
          then (let w1 = storageUtils_remove STORAGE_KEYS_TOKEN w;
                    w2 = (if window_defined w1 \<and> \<not> includes_str (pathname w1) ''/login''
                          then w1\<lparr>href_assigned := href_assigned w1 @ [''/login'']\<rparr>
                          else w1)
                in (Inl error, message_error (JStr ERROR_MESSAGES_UNAUTHORIZED) w2))
          else if st = JNum 403
          then (Inl error, message_error (JStr ERROR_MESSAGES_FORBIDDEN) w)
          else (case get_prop error ''message'' of
                  Inl e \<Rightarrow> (Inl e, w)
                | Inr m \<Rightarrow>
                    (Inl error, message_error (js_or m (JStr ERROR_MESSAGES_UNKNOWN_ERROR)) w)))"

definition addRequestInterceptor :: "HttpClient \<Rightarrow> RequestInterceptor \<Rightarrow> HttpClient" where
  "addRequestInterceptor this interceptor =
     this\<lparr>requestInterceptors := requestInterceptors this @ [interceptor]\<rparr>"

definition addResponseInterceptor :: "HttpClient \<Rightarrow> ResponseInterceptor \<Rightarrow> HttpClient" where
  "addResponseInterceptor this interceptor =
     this\<lparr>responseInterceptors := responseInterceptors this @ [interceptor]\<rparr>"

definition addErrorInterceptor :: "HttpClient \<Rightarrow> ErrorInterceptor \<Rightarrow> HttpClient" where
  "addErrorInterceptor this interceptor =
     this\<lparr>errorInterceptors := errorInterceptors this @ [interceptor]\<rparr>"

definition setupDefaultInterceptors :: "HttpClient \<Rightarrow> HttpClient" where
  "setupDefaultInterceptors this =
     addErrorInterceptor
       (addResponseInterceptor
          (addRequestInterceptor this defaultRequestInterceptor)
          defaultResponseInterceptor)
       defaultErrorInterceptor"

text \<open>The constructor, and the default instance \<^verbatim>\<open>http = new HttpClient()\<close>.\<close>

definition new_HttpClient :: "string \<Rightarrow> int \<Rightarrow> HttpClient" where
  "new_HttpClient b t =
     setupDefaultInterceptors
       \<lparr>baseURL = b, this_timeout = t, requestInterceptors = [],
        responseInterceptors = [], errorInterceptors = []\<rparr>"

definition http :: "string option \<Rightarrow> HttpClient" where
  "http env = new_HttpClient (API_BASE_URL env) 10000"


section \<open>Applying the interceptor sequences\<close>

text \<open>
  \<^verbatim>\<open>applyRequestInterceptors\<close>: the loop \<^verbatim>\<open>finalConfig = await interceptor(finalConfig)\<close>. A
  throwing interceptor ends the loop with its failure. Beside the result the model
  returns the invocations the loop made, oldest first: the position of the interceptor
  in the registry, the descriptor and the world it was called with, and what it returned
  or threw.
\<close>

record interceptor_call =
  call_index :: nat
  call_argument :: RequestConfig
  call_world :: world
  call_outcome :: "jsval + RequestConfig"

fun applyRequestInterceptors_from ::
  "nat \<Rightarrow> RequestInterceptor list \<Rightarrow> RequestConfig \<Rightarrow> world
     \<Rightarrow> interceptor_call list \<times> (jsval + RequestConfig) \<times> world" where
  "applyRequestInterceptors_from i [] finalConfig w = ([], Inr finalConfig, w)"
| "applyRequestInterceptors_from i (interceptor # rest) finalConfig w =
     (case interceptor finalConfig w of
        (Inl e, w') \<Rightarrow>
          ([\<lparr>call_index = i, call_argument = finalConfig, call_world = w,
             call_outcome = Inl e\<rparr>], Inl e, w')
      | (Inr c, w') \<Rightarrow>
          (case applyRequestInterceptors_from (Suc i) rest c w' of
             (calls, r) \<Rightarrow>
               (\<lparr>call_index = i, call_argument = finalConfig, call_world = w,
                 call_outcome = Inr c\<rparr> # calls, r)))"

definition requestInterceptor_calls ::
  "HttpClient \<Rightarrow> RequestConfig \<Rightarrow> world \<Rightarrow> interceptor_call list" where
  "requestInterceptor_calls this config w =
     fst (applyRequestInterceptors_from 0 (requestInterceptors this) config w)"

definition applyRequestInterceptors ::
  "HttpClient \<Rightarrow> RequestConfig \<Rightarrow> world \<Rightarrow> (jsval + RequestConfig) \<times> world" where
  "applyRequestInterceptors this config w =
     snd (applyRequestInterceptors_from 0 (requestInterceptors this) config w)"

fun applyResponseInterceptors_list ::
  "ResponseInterceptor list \<Rightarrow> jsval \<Rightarrow> world \<Rightarrow> (jsval + jsval) \<times> world" where
  "applyResponseInterceptors_list [] finalResponse w = (Inr finalResponse, w)"
| "applyResponseInterceptors_list (interceptor # rest) finalResponse w =
     (case interceptor finalResponse w of
        (Inl e, w') \<Rightarrow> (Inl e, w')
      | (Inr r, w') \<Rightarrow> applyResponseInterceptors_list rest r w')"

definition applyResponseInterceptors ::
  "HttpClient \<Rightarrow> jsval \<Rightarrow> world \<Rightarrow> (jsval + jsval) \<times> world" where
  "applyResponseInterceptors this response w =
     applyResponseInterceptors_list (responseInterceptors this) response w"

text \<open>
  \<^verbatim>\<open>applyErrorInterceptors\<close>: every interceptor is called with the same error inside
  \<^verbatim>\<open>try { ... } catch (e) { }\<close>; what it returns or throws is dropped, its effects stay.
\<close>

fun applyErrorInterceptors_list :: "ErrorInterceptor list \<Rightarrow> jsval \<Rightarrow> world \<Rightarrow> world" where
  "applyErrorInterceptors_list [] error w = w"
| "applyErrorInterceptors_list (interceptor # rest) error w =
     applyErrorInterceptors_list rest error (snd (interceptor error w))"

definition applyErrorInterceptors :: "HttpClient \<Rightarrow> jsval \<Rightarrow> world \<Rightarrow> world" where
  "applyErrorInterceptors this error w =
     applyErrorInterceptors_list (errorInterceptors this) error w"


section \<open>\<^verbatim>\<open>HttpClient.request\<close>\<close>

text \<open>
  \<^verbatim>\<open>AbortSignal.timeout(ms)\<close> takes an \<^verbatim>\<open>[EnforceRange] unsigned long long\<close>: in a browser, an
  argument below 0 or above \<open>2 ^ 53 - 1\<close> throws a TypeError. Timeouts are integers of
  milliseconds.
\<close>

definition AbortSignal_timeout :: "int \<Rightarrow> jsval + int" where
  "AbortSignal_timeout ms =
     (if ms < 0 \<or> 2 ^ 53 - 1 < ms
      then Inl (TypeError ''Value is outside the unsigned long long value range'')
      else Inr ms)"

text \<open>
  The platform's \<^verbatim>\<open>fetch\<close> under an abort signal, over the network. The network is a
  parameter: for a call it gives the time in milliseconds after which the response or
  the network failure arrives (\<open>None\<close>: never), that outcome, and the world the arrival
  leaves. With \<^verbatim>\<open>AbortSignal.timeout(ms)\<close>, an outcome that arrives within \<open>ms\<close> is
  delivered; otherwise the signal fires first, the call in flight is aborted, nothing of
  its outcome reaches the world, and \<^verbatim>\<open>fetch\<close> rejects with the signal's reason, a
  DOMException named \<^verbatim>\<open>TimeoutError\<close> (legacy code 23); its message is the engine's
  wording, here that of Chromium. Without a signal the outcome is delivered (a call that
  never ends is not represented; \<^verbatim>\<open>request\<close> always passes a signal).
\<close>

type_synonym network =
  "string \<Rightarrow> RequestInit \<Rightarrow> world \<Rightarrow> nat option \<times> (jsval + Response) \<times> world"

definition TimeoutError :: jsval where
  "TimeoutError =
     JObj [(''name'', JStr ''TimeoutError''), (''message'', JStr ''signal timed out''),
           (''code'', JNum 23)]"

definition arrives_within :: "nat option \<Rightarrow> int \<Rightarrow> bool" where
  "arrives_within latency ms = (case latency of None \<Rightarrow> False | Some t \<Rightarrow> int t \<le> ms)"

definition fetch_with_signal :: "network \<Rightarrow> transport" where
  "fetch_with_signal net u fetchOptions w =
     (case net u fetchOptions w of
        (latency, outcome, w') \<Rightarrow>
          (case signal fetchOptions of
             None \<Rightarrow> (outcome, w')
           | Some ms \<Rightarrow>
               if arrives_within latency ms then (outcome, w') else (Inl TimeoutError, w)))"

text \<open>
  Steps 2 and 3 of \<^verbatim>\<open>request\<close>: the headers
  \<^verbatim>\<open>{ "Content-Type": "application/json", ...finalConfig.headers }\<close>, the method
  \<^verbatim>\<open>finalConfig.method || "GET"\<close>, the signal
  \<^verbatim>\<open>AbortSignal.timeout(finalConfig.timeout || this.timeout)\<close>, and the body, attached when
  \<^verbatim>\<open>finalConfig.data\<close> is truthy and the method is one of POST, PUT, PATCH; a FormData body
  deletes the \<^verbatim>\<open>Content-Type\<close> header.
\<close>

definition request_timeout :: "HttpClient \<Rightarrow> RequestConfig \<Rightarrow> int" where
  "request_timeout this finalConfig =
     (case timeout finalConfig of
        None \<Rightarrow> this_timeout this
      | Some t \<Rightarrow> if t \<noteq> 0 then t else this_timeout this)"

definition request_fetchOptions :: "HttpClient \<Rightarrow> RequestConfig \<Rightarrow> jsval + RequestInit" where
  "request_fetchOptions this finalConfig =
     (let hdrs = [''Content-Type'' \<mapsto> ''application/json''] ++ headers_of finalConfig;
          m = (case http_method finalConfig of None \<Rightarrow> GET | Some m \<Rightarrow> m)
      in case AbortSignal_timeout (request_timeout this finalConfig) of
           Inl e \<Rightarrow> Inl e
         | Inr ms \<Rightarrow>
             (let fetchOptions =
                    \<lparr>init_method = Some m, init_headers = hdrs, signal = Some ms, body = None\<rparr>
              in if truthy (data finalConfig) \<and> m \<in> set [POST, PUT, PATCH]
                 then (case data finalConfig of
                         JFormData fd \<Rightarrow>
                           Inr (fetchOptions\<lparr>init_headers := hdrs(''Content-Type'' := None),
                                             body := Some (Body_FormData fd)\<rparr>)
                       | d \<Rightarrow> Inr (fetchOptions\<lparr>body := Some (Body_JSON_stringify d)\<rparr>))
                 else Inr fetchOptions))"

text \<open>
  Steps 1 to 4: the request interceptors, the options, the URL. The result is what the
  transport is called with.
\<close>

definition request_prepare ::
  "HttpClient \<Rightarrow> RequestConfig \<Rightarrow> world \<Rightarrow> (jsval + string \<times> RequestInit) \<times> world" where
  "request_prepare this config w =
     (case applyRequestInterceptors this config w of
        (Inl e, w1) \<Rightarrow> (Inl e, w1)
      | (Inr finalConfig, w1) \<Rightarrow>
          (case request_fetchOptions this finalConfig of
             Inl e \<Rightarrow> (Inl e, w1)
           | Inr fetchOptions \<Rightarrow>
               (Inr (buildURL this (url finalConfig) (params finalConfig), fetchOptions), w1)))"

text \<open>The \<^verbatim>\<open>try\<close> block: steps 1 to 4, the transport call, the response interceptors.\<close>

definition request_try ::
  "HttpClient \<Rightarrow> transport \<Rightarrow> RequestConfig \<Rightarrow> world \<Rightarrow> (jsval + jsval) \<times> world" where
  "request_try this fetch config w =
     (case request_prepare this config w of
        (Inl e, w1) \<Rightarrow> (Inl e, w1)
      | (Inr (u, fetchOptions), w1) \<Rightarrow>
          (case fetch u fetchOptions w1 of
             (Inl e, w2) \<Rightarrow> (Inl e, w2)
           | (Inr response, w2) \<Rightarrow> applyResponseInterceptors this (Response_js response) w2))"

text \<open>
  The \<^verbatim>\<open>catch\<close> block: the Error Object
  \<^verbatim>\<open>{ code: error.code || "UNKNOWN_ERROR", message: error.message || ERROR_MESSAGES.UNKNOWN_ERROR, details: error }\<close>
  is built, handed to the error interceptors and thrown. Reading \<^verbatim>\<open>error.code\<close> of a thrown
  \<^verbatim>\<open>undefined\<close> or \<^verbatim>\<open>null\<close> throws out of the block.
\<close>

definition apiError_of :: "jsval \<Rightarrow> jsval \<Rightarrow> jsval \<Rightarrow> jsval" where
  "apiError_of c m error =
     JObj [(''code'', js_or c (JStr ''UNKNOWN_ERROR'')),
           (''message'', js_or m (JStr ERROR_MESSAGES_UNKNOWN_ERROR)),
           (''details'', error)]"

definition request_catch :: "HttpClient \<Rightarrow> jsval \<Rightarrow> world \<Rightarrow> (jsval + jsval) \<times> world" where
  "request_catch this error w =
     (case get_prop error ''code'' of
        Inl e \<Rightarrow> (Inl e, w)
      | Inr c \<Rightarrow>
          (case get_prop error ''message'' of
             Inl e \<Rightarrow> (Inl e, w)
           | Inr m \<Rightarrow>
               (let apiError = apiError_of c m error
                in (Inl apiError, applyErrorInterceptors this apiError w))))"

definition request ::
  "HttpClient \<Rightarrow> transport \<Rightarrow> RequestConfig \<Rightarrow> world \<Rightarrow> (jsval + jsval) \<times> world" where
  "request this fetch config w =
     (case request_try this fetch config w of
        (Inr d, w') \<Rightarrow> (Inr d, w')
      | (Inl error, w') \<Rightarrow> request_catch this error w')"


section \<open>The verb bindings\<close>

text \<open>
  \<^verbatim>\<open>config?: Partial<RequestConfig>\<close> is spread last into the descriptor: every key it has
  replaces the binding's own.
\<close>

record PartialConfig =
  p_url :: "string option"
  p_method :: "Method option"
  p_params :: "(string \<times> jsval) list option"
  p_data :: "jsval option"
  p_headers :: "(string \<rightharpoonup> string) option"
  p_timeout :: "int option"

definition spread :: "RequestConfig \<Rightarrow> PartialConfig option \<Rightarrow> RequestConfig" where
  "spread c config =
     (case config of
        None \<Rightarrow> c
      | Some p \<Rightarrow>
          \<lparr>url = (case p_url p of None \<Rightarrow> url c | Some u \<Rightarrow> u),
           http_method = (case p_method p of None \<Rightarrow> http_method c | Some m \<Rightarrow> Some m),
           params = (case p_params p of None \<Rightarrow> params c | Some ps \<Rightarrow> Some ps),
           data = (case p_data p of None \<Rightarrow> data c | Some d \<Rightarrow> d),
           headers = (case p_headers p of None \<Rightarrow> headers c | Some h \<Rightarrow> Some h),
           timeout = (case p_timeout p of None \<Rightarrow> timeout c | Some t \<Rightarrow> Some t)\<rparr>)"

definition descriptor :: "string \<Rightarrow> Method \<Rightarrow> RequestConfig" where
  "descriptor u m =
     \<lparr>url = u, http_method = Some m, params = None, data = JUndefined, headers = None,
      timeout = None\<rparr>"

definition get ::
  "HttpClient \<Rightarrow> transport \<Rightarrow> string \<Rightarrow> (string \<times> jsval) list option \<Rightarrow> PartialConfig option
     \<Rightarrow> world \<Rightarrow> (jsval + jsval) \<times> world" where
  "get this fetch u ps config w =
     request this fetch (spread ((descriptor u GET)\<lparr>params := ps\<rparr>) config) w"

definition post ::
  "HttpClient \<Rightarrow> transport \<Rightarrow> string \<Rightarrow> jsval \<Rightarrow> PartialConfig option
     \<Rightarrow> world \<Rightarrow> (jsval + jsval) \<times> world" where
  "post this fetch u d config w =
     request this fetch (spread ((descriptor u POST)\<lparr>data := d\<rparr>) config) w"

definition put ::
  "HttpClient \<Rightarrow> transport \<Rightarrow> string \<Rightarrow> jsval \<Rightarrow> PartialConfig option
     \<Rightarrow> world \<Rightarrow> (jsval + jsval) \<times> world" where
  "put this fetch u d config w =
     request this fetch (spread ((descriptor u PUT)\<lparr>data := d\<rparr>) config) w"

definition patch ::
  "HttpClient \<Rightarrow> transport \<Rightarrow> string \<Rightarrow> jsval \<Rightarrow> PartialConfig option
     \<Rightarrow> world \<Rightarrow> (jsval + jsval) \<times> world" where
  "patch this fetch u d config w =
     request this fetch (spread ((descriptor u PATCH)\<lparr>data := d\<rparr>) config) w"

definition delete ::
  "HttpClient \<Rightarrow> transport \<Rightarrow> string \<Rightarrow> PartialConfig option
     \<Rightarrow> world \<Rightarrow> (jsval + jsval) \<times> world" where
  "delete this fetch u config w = request this fetch (spread (descriptor u DELETE) config) w"


section \<open>\<^verbatim>\<open>HttpClient.upload\<close>\<close>

text \<open>
  \<^verbatim>\<open>XMLHttpRequest\<close> is the platform's; the model follows the XMLHttpRequest standard as far
  as \<^verbatim>\<open>upload\<close> uses it. A new request is \<open>UNSENT\<close>; \<^verbatim>\<open>open\<close> makes it \<open>OPENED\<close>;
  \<^verbatim>\<open>setRequestHeader\<close> throws an \<^verbatim>\<open>InvalidStateError\<close> unless the request is \<open>OPENED\<close>.
  \<^verbatim>\<open>send\<close> is the transport, a parameter: it ends with a \<^verbatim>\<open>load\<close> event (the status and
  the outcome of \<^verbatim>\<open>JSON.parse(xhr.responseText)\<close>, \<open>None\<close> when the text is not JSON) or
  an \<^verbatim>\<open>error\<close> event. The progress listener has no part in the promise's outcome and is
  left out.
\<close>

datatype readyState = UNSENT | OPENED

record XMLHttpRequest =
  xhr_readyState :: readyState
  xhr_method :: string
  xhr_url :: string
  xhr_requestHeaders :: "(string \<times> string) list"

definition new_XMLHttpRequest :: XMLHttpRequest where
  "new_XMLHttpRequest =
     \<lparr>xhr_readyState = UNSENT, xhr_method = [], xhr_url = [], xhr_requestHeaders = []\<rparr>"

definition InvalidStateError :: jsval where
  "InvalidStateError =
     DOMException ''InvalidStateError''
       ''Failed to execute setRequestHeader on XMLHttpRequest: The object state must be OPENED.''"

definition xhr_setRequestHeader ::
  "XMLHttpRequest \<Rightarrow> string \<Rightarrow> string \<Rightarrow> jsval + XMLHttpRequest" where
  "xhr_setRequestHeader xhr name v =
     (if xhr_readyState xhr \<noteq> OPENED then Inl InvalidStateError
      else Inr (xhr\<lparr>xhr_requestHeaders := xhr_requestHeaders xhr @ [(name, v)]\<rparr>))"

definition xhr_open :: "XMLHttpRequest \<Rightarrow> string \<Rightarrow> string \<Rightarrow> XMLHttpRequest" where
  "xhr_open xhr m u =
     xhr\<lparr>xhr_readyState := OPENED, xhr_method := m, xhr_url := u, xhr_requestHeaders := []\<rparr>"

datatype xhr_event = Load nat "jsval option" | Error

type_synonym xhr_transport = "XMLHttpRequest \<Rightarrow> jsval \<Rightarrow> world \<Rightarrow> xhr_event \<times> world"

text \<open>
  The promise executor of \<^verbatim>\<open>upload\<close>, in the order of the source: the form data, the
  listeners, the token and \<^verbatim>\<open>setRequestHeader\<close>, then \<^verbatim>\<open>open\<close> and \<^verbatim>\<open>send\<close>. A throw in the
  executor rejects the promise and ends the executor.
\<close>

definition upload ::
  "HttpClient \<Rightarrow> xhr_transport \<Rightarrow> string \<Rightarrow> jsval \<Rightarrow> world \<Rightarrow> (jsval + jsval) \<times> world" where
  "upload this send u file w =
     (let formData = JFormData [(''file'', file)];
          xhr = new_XMLHttpRequest;
          token = storageUtils_get w STORAGE_KEYS_TOKEN
      in case (if truthy token
               then xhr_setRequestHeader xhr ''Authorization'' (''Bearer '' @ String token)
               else Inr xhr) of
           Inl e \<Rightarrow> (Inl e, w)
         | Inr xhr1 \<Rightarrow>
             (case send (xhr_open xhr1 ''POST'' (buildURL this u None)) formData w of
                (Load st parsed, w') \<Rightarrow>
                  if 200 \<le> st \<and> st < 300
                  then (case parsed of
                          Some response \<Rightarrow> (Inr response, w')
                        | None \<Rightarrow> (Inl (new_Error (JStr ''Invalid JSON response'')), w'))
                  else (Inl (new_Error (JStr (''Upload failed with status '' @ digits st))), w')
              | (Error, w') \<Rightarrow> (Inl (new_Error (JStr ''Upload failed'')), w')))"


section \<open>\<^verbatim>\<open>HttpClient.download\<close>\<close>

text \<open>
  The platform calls of \<^verbatim>\<open>download\<close>. \<^verbatim>\<open>window.URL.createObjectURL\<close> needs \<^verbatim>\<open>window\<close> and
  registers a new object URL for the blob; \<^verbatim>\<open>revokeObjectURL\<close> removes it.
  \<^verbatim>\<open>document.body.appendChild\<close> throws a TypeError when \<^verbatim>\<open>document.body\<close> is \<^verbatim>\<open>null\<close>;
  \<^verbatim>\<open>link.click()\<close> triggers the save; \<^verbatim>\<open>removeChild\<close> throws a \<^verbatim>\<open>NotFoundError\<close> when the
  link is not a child of the body.
\<close>

definition createObjectURL :: "string \<Rightarrow> world \<Rightarrow> (jsval + string) \<times> world" where
  "createObjectURL blob w =
     (if \<not> window_defined w then (Inl (ReferenceError ''window is not defined''), w)
      else (let u = ''blob:'' @ digits (objectURL_count w)
            in (Inr u, w\<lparr>objectURLs := (objectURLs w)(u \<mapsto> blob),
                          objectURL_count := Suc (objectURL_count w)\<rparr>)))"

definition revokeObjectURL :: "string \<Rightarrow> world \<Rightarrow> world" where
  "revokeObjectURL u w = w\<lparr>objectURLs := (objectURLs w)(u := None)\<rparr>"

definition appendChild :: "anchor \<Rightarrow> world \<Rightarrow> (jsval + unit) \<times> world" where
  "appendChild link w =
     (case document_body w of
        None \<Rightarrow> (Inl (TypeError ''Cannot read properties of null''), w)
      | Some children \<Rightarrow> (Inr (), w\<lparr>document_body := Some (children @ [link])\<rparr>))"

definition click :: "anchor \<Rightarrow> world \<Rightarrow> world" where
  "click link w = w\<lparr>clicked := clicked w @ [link]\<rparr>"

definition removeChild :: "anchor \<Rightarrow> world \<Rightarrow> (jsval + unit) \<times> world" where
  "removeChild link w =
     (case document_body w of
        None \<Rightarrow> (Inl (TypeError ''Cannot read properties of null''), w)
      | Some children \<Rightarrow>
          if link \<in> set children
          then (Inr (), w\<lparr>document_body := Some (remove1 link children)\<rparr>)
          else (Inl (DOMException ''NotFoundError'' ''The node to be removed is not a child of this node.''), w))"

text \<open>
  The options \<^verbatim>\<open>download\<close> calls \<^verbatim>\<open>fetch\<close> with:
  \<^verbatim>\<open>{ headers: { Authorization: `Bearer ${storageUtils.get(STORAGE_KEYS.TOKEN)}` } }\<close>.
\<close>

definition download_options :: "world \<Rightarrow> RequestInit" where
  "download_options w =
     \<lparr>init_method = None,
      init_headers =
        [''Authorization'' \<mapsto> ''Bearer '' @ String (storageUtils_get w STORAGE_KEYS_TOKEN)],
      signal = None, body = None\<rparr>"

text \<open>The \<^verbatim>\<open>try\<close> block of \<^verbatim>\<open>download\<close>.\<close>

definition download_try ::
  "HttpClient \<Rightarrow> transport \<Rightarrow> string \<Rightarrow> string option \<Rightarrow> world \<Rightarrow> (jsval + unit) \<times> world" where
  "download_try this fetch u filename w =
     (case fetch (buildURL this u None) (download_options w) w of
        (Inl e, w1) \<Rightarrow> (Inl e, w1)
      | (Inr (st, js, bl), w1) \<Rightarrow>
          if \<not> ok st then (Inl (new_Error (JStr ''Download failed'')), w1)
          else (case bl of
                  Inl e \<Rightarrow> (Inl e, w1)
                | Inr blob \<Rightarrow>
                    (case createObjectURL blob w1 of
                       (Inl e, w2) \<Rightarrow> (Inl e, w2)
                     | (Inr downloadUrl, w2) \<Rightarrow>
                         (let link = \<lparr>href = downloadUrl,
                                      download_attr =
                                        (case filename of
                                           None \<Rightarrow> ''download''
                                         | Some f \<Rightarrow> if f \<noteq> [] then f else ''download'')\<rparr>
                          in case appendChild link w2 of
                               (Inl e, w3) \<Rightarrow> (Inl e, w3)
                             | (Inr _, w3) \<Rightarrow>
                                 (case removeChild link (click link w3) of
                                    (Inl e, w4) \<Rightarrow> (Inl e, w4)
                                  | (Inr _, w4) \<Rightarrow> (Inr (), revokeObjectURL downloadUrl w4))))))"

text \<open>The \<^verbatim>\<open>catch\<close> block shows the notice and rethrows.\<close>

definition download ::
  "HttpClient \<Rightarrow> transport \<Rightarrow> string \<Rightarrow> string option \<Rightarrow> world \<Rightarrow> (jsval + unit) \<times> world" where
  "download this fetch u filename w =
     (case download_try this fetch u filename w of
        (Inr r, w') \<Rightarrow> (Inr r, w')
      | (Inl error, w') \<Rightarrow> (Inl error, message_error (JStr DOWNLOAD_FAILED_NOTICE) w'))"


section \<open>\<^verbatim>\<open>userApi.getUsers\<close> (\<^verbatim>\<open>src/lib/services/api.ts\<close>)\<close>

text \<open>
  \<^verbatim>\<open>params?: PaginationParams & { search?: string }\<close>. The URL is built with a
  \<^verbatim>\<open>URLSearchParams\<close> of its own, each key set when its value is truthy, and handed to
  \<^verbatim>\<open>http.get\<close> without a parameter object.
\<close>

record getUsers_params =
  current :: js_int
  pageSize :: js_int
  search :: "string option"

definition getUsers_url :: "getUsers_params option \<Rightarrow> string" where
  "getUsers_url ps =
     (case ps of
        None \<Rightarrow> ''/users''
      | Some p \<Rightarrow>
          (let q0 = [];
               q1 = (if current p \<noteq> 0
                     then URLSearchParams_set q0 ''current'' (String (JNum (current p))) else q0);
               q2 = (if pageSize p \<noteq> 0
                     then URLSearchParams_set q1 ''pageSize'' (String (JNum (pageSize p))) else q1);
               q3 = (case search p of
                       None \<Rightarrow> q2
                     | Some s \<Rightarrow> if s \<noteq> [] then URLSearchParams_set q2 ''search'' s else q2);
               queryString = URLSearchParams_toString q3
           in if queryString \<noteq> [] then ''/users?'' @ queryString else ''/users''))"

definition getUsers ::
  "HttpClient \<Rightarrow> transport \<Rightarrow> getUsers_params option \<Rightarrow> world \<Rightarrow> (jsval + jsval) \<times> world" where
  "getUsers this fetch ps w = get this fetch (getUsers_url ps) None None w"


section \<open>Notions the properties are stated with\<close>

text \<open>
  The parameters a query string is expected to carry: the entries whose value is not
  \<^verbatim>\<open>null\<close>, not \<^verbatim>\<open>undefined\<close> and not the empty string, in their order, each value as its
  string.
\<close>

definition included_params :: "(string \<times> jsval) list \<Rightarrow> URLSearchParams" where
  "included_params entries =
     map (\<lambda>kv. (fst kv, String (snd kv)))
       (filter (\<lambda>kv. snd kv \<noteq> JNull \<and> snd kv \<noteq> JUndefined \<and> snd kv \<noteq> JStr []) entries)"

text \<open>One name and value pair of a serialized query string.\<close>

definition segment :: "string \<times> string \<Rightarrow> string" where
  "segment p = urlencoded_string (fst p) @ ''='' @ urlencoded_string (snd p)"

text \<open>
  The reading of ``every registered request interceptor is invoked exactly once, in
  registration order'': the invocations are those of the positions \<open>0, ..., N - 1\<close>, in
  this order.
\<close>

definition each_invoked_once :: "HttpClient \<Rightarrow> RequestConfig \<Rightarrow> world \<Rightarrow> bool" where
  "each_invoked_once this config w =
     (map call_index (requestInterceptor_calls this config w)
        = [0..<length (requestInterceptors this)])"

text \<open>
  The timeout as the specification words it: the descriptor's override if present,
  otherwise the client default.
\<close>

definition spec_timeout :: "HttpClient \<Rightarrow> RequestConfig \<Rightarrow> int" where
  "spec_timeout this config =
     (case timeout config of None \<Rightarrow> this_timeout this | Some t \<Rightarrow> t)"

text \<open>The default headers merged with the overrides of a descriptor, overrides last.\<close>

definition merged_headers :: "RequestConfig \<Rightarrow> (string \<rightharpoonup> string)" where
  "merged_headers finalConfig =
     [''Content-Type'' \<mapsto> ''application/json''] ++ headers_of finalConfig"

fun is_FormData :: "jsval \<Rightarrow> bool" where
  "is_FormData (JFormData fd) = True"
| "is_FormData _ = False"

text \<open>The method a descriptor is sent with: \<^verbatim>\<open>finalConfig.method || "GET"\<close>.\<close>

definition method_of :: "RequestConfig \<Rightarrow> Method" where
  "method_of finalConfig = (case http_method finalConfig of None \<Rightarrow> GET | Some m \<Rightarrow> m)"

text \<open>
  The headers as the specification words them: the default merged with the overrides,
  the default \<^verbatim>\<open>Content-Type\<close> entry omitted when the body payload of the descriptor is a
  FormData.
\<close>

definition spec_headers :: "RequestConfig \<Rightarrow> (string \<rightharpoonup> string)" where
  "spec_headers finalConfig =
     (if is_FormData (data finalConfig) then Map.empty ++ headers_of finalConfig
      else [''Content-Type'' \<mapsto> ''application/json''] ++ headers_of finalConfig)"

text \<open>
  Well-formed text: a string whose bytes are well-formed UTF-8 (the table of the Unicode
  standard), that is, the encoding of scalar values only; a string that holds a lone
  surrogate is not.
\<close>

function well_formed_utf8 :: "nat list \<Rightarrow> bool" where
  "well_formed_utf8 bs =
     (case bs of
        [] \<Rightarrow> True
      | b1 # r \<Rightarrow>
          if b1 \<le> 0x7F then well_formed_utf8 r
          else if 0xC2 \<le> b1 \<and> b1 \<le> 0xDF
            then 1 \<le> length r \<and> 0x80 \<le> r ! 0 \<and> r ! 0 \<le> 0xBF \<and> well_formed_utf8 (drop 1 r)
          else if 0xE0 \<le> b1 \<and> b1 \<le> 0xEF
            then 2 \<le> length r
                 \<and> (if b1 = 0xE0 then 0xA0 else 0x80) \<le> r ! 0
                 \<and> r ! 0 \<le> (if b1 = 0xED then 0x9F else 0xBF)
                 \<and> 0x80 \<le> r ! 1 \<and> r ! 1 \<le> 0xBF \<and> well_formed_utf8 (drop 2 r)
          else if 0xF0 \<le> b1 \<and> b1 \<le> 0xF4
            then 3 \<le> length r
                 \<and> (if b1 = 0xF0 then 0x90 else 0x80) \<le> r ! 0
                 \<and> r ! 0 \<le> (if b1 = 0xF4 then 0x8F else 0xBF)
                 \<and> 0x80 \<le> r ! 1 \<and> r ! 1 \<le> 0xBF
                 \<and> 0x80 \<le> r ! 2 \<and> r ! 2 \<le> 0xBF \<and> well_formed_utf8 (drop 3 r)
          else False)"
  by pat_completeness auto
termination
  by (relation "measure length") auto

declare well_formed_utf8.simps [simp del]

definition well_formed_text :: "string \<Rightarrow> bool" where
  "well_formed_text s = well_formed_utf8 (map (of_char :: char \<Rightarrow> nat) s)"

text \<open>
  The property \<open>k\<close> of a value that has properties; \<^verbatim>\<open>undefined\<close> when it has none of that
  name.
\<close>

definition read_prop :: "jsval \<Rightarrow> string \<Rightarrow> jsval" where
  "read_prop v k = (case get_prop v k of Inl e \<Rightarrow> JUndefined | Inr x \<Rightarrow> x)"

text \<open>
  Example inputs. \<open>world0\<close>: no stored token, a window at \<^verbatim>\<open>/dashboard\<close>, a document with an
  empty body. \<open>world_token\<close>: the same with the token \<^verbatim>\<open>abc\<close> stored. \<open>world_no_body\<close>: the
  same as \<open>world0\<close> with \<^verbatim>\<open>document.body\<close> \<^verbatim>\<open>null\<close>.
\<close>

definition world0 :: world where
  "world0 =
     \<lparr>localStorage = Map.empty, window_defined = True, pathname = ''/dashboard'',
      href_assigned = [], message_errors = [], objectURLs = Map.empty, objectURL_count = 0,
      document_body = Some [], clicked = []\<rparr>"

definition world_token :: world where
  "world_token = world0\<lparr>localStorage := [STORAGE_KEYS_TOKEN \<mapsto> JStr ''abc'']\<rparr>"

definition world_no_body :: world where
  "world_no_body = world0\<lparr>document_body := None\<rparr>"

text \<open>Example interceptors: one that rejects with \<^verbatim>\<open>undefined\<close>, one that throws an Error,
  one that sets a header.\<close>

definition reject_undefined :: RequestInterceptor where
  "reject_undefined config w = (Inl JUndefined, w)"

definition throwing_interceptor :: RequestInterceptor where
  "throwing_interceptor config w = (Inl (new_Error (JStr ''interceptor failed'')), w)"

definition trace_interceptor :: RequestInterceptor where
  "trace_interceptor config w =
     (Inr (config\<lparr>headers := Some ((headers_of config)(''X-Trace'' \<mapsto> ''1''))\<rparr>), w)"

text \<open>Example transports: each answers every call with one fixed response.\<close>

definition respond :: "Response \<Rightarrow> transport" where
  "respond r u fetchOptions w = (Inr r, w)"

definition reject_with :: "jsval \<Rightarrow> transport" where
  "reject_with e u fetchOptions w = (Inl e, w)"

text \<open>Example networks: each answers every call alike, after a fixed time or never.\<close>

definition answer_after :: "nat \<Rightarrow> Response \<Rightarrow> network" where
  "answer_after t r u fetchOptions w = (Some t, Inr r, w)"

definition never_answers :: network where
  "never_answers u fetchOptions w = (None, Inl (TypeError ''Failed to fetch''), w)"

text \<open>The body \<^verbatim>\<open>{ success: false, message: ... }\<close> whose message says the e-mail address
  exists already (UTF-8 encoded).\<close>

definition EMAIL_EXISTS :: string where
  "EMAIL_EXISTS =
     [CHR 0xE9, CHR 0x82, CHR 0xAE, CHR 0xE7, CHR 0xAE, CHR 0xB1, CHR 0xE5, CHR 0xB7, CHR 0xB2,
      CHR 0xE5, CHR 0xAD, CHR 0x98, CHR 0xE5, CHR 0x9C, CHR 0xA8]"

definition email_exists_body :: jsval where
  "email_exists_body = JObj [(''success'', JBool False), (''message'', JStr EMAIL_EXISTS)]"


section \<open>The default client, unfolded\<close>

lemmas client_defs = http_def new_HttpClient_def setupDefaultInterceptors_def
  addRequestInterceptor_def addResponseInterceptor_def addErrorInterceptor_def


section \<open>UTF-8 decoding inverts encoding on well-formed text\<close>

lemma decoder_ascii:
  "b \<le> 0x7F \<Longrightarrow>
   utf8_decoder 0 0 0x80 0xBF (b # r) = b # utf8_decoder 0 0 0x80 0xBF r"
  by (simp add: utf8_first_def)

lemma decoder_two:
  "0xC2 \<le> b1 \<Longrightarrow> b1 \<le> 0xDF \<Longrightarrow> 0x80 \<le> b2 \<Longrightarrow> b2 \<le> 0xBF \<Longrightarrow>
   utf8_decoder 0 0 0x80 0xBF (b1 # b2 # r)
     = (b1 mod 32 * 64 + b2 mod 64) # utf8_decoder 0 0 0x80 0xBF r"
  by (simp add: utf8_first_def)

lemma decoder_three:
  "0xE0 \<le> b1 \<Longrightarrow> b1 \<le> 0xEF \<Longrightarrow>
   (if b1 = 0xE0 then 0xA0 else 0x80) \<le> b2 \<Longrightarrow> b2 \<le> (if b1 = 0xED then 0x9F else 0xBF) \<Longrightarrow>
   0x80 \<le> b3 \<Longrightarrow> b3 \<le> 0xBF \<Longrightarrow>
   utf8_decoder 0 0 0x80 0xBF (b1 # b2 # b3 # r)
     = ((b1 mod 16 * 64 + b2 mod 64) * 64 + b3 mod 64) # utf8_decoder 0 0 0x80 0xBF r"
  by (simp add: utf8_first_def)

lemma decoder_four:
  "0xF0 \<le> b1 \<Longrightarrow> b1 \<le> 0xF4 \<Longrightarrow>
   (if b1 = 0xF0 then 0x90 else 0x80) \<le> b2 \<Longrightarrow> b2 \<le> (if b1 = 0xF4 then 0x8F else 0xBF) \<Longrightarrow>
   0x80 \<le> b3 \<Longrightarrow> b3 \<le> 0xBF \<Longrightarrow> 0x80 \<le> b4 \<Longrightarrow> b4 \<le> 0xBF \<Longrightarrow>
   utf8_decoder 0 0 0x80 0xBF (b1 # b2 # b3 # b4 # r)
     = (((b1 mod 8 * 64 + b2 mod 64) * 64 + b3 mod 64) * 64 + b4 mod 64)
         # utf8_decoder 0 0 0x80 0xBF r"
  by (simp add: utf8_first_def)

lemma mod_shift: "x < n \<Longrightarrow> (k * n + x) mod n = (x :: nat)"
  by simp

lemma encode_two:
  assumes "0xC2 \<le> b1" "b1 \<le> 0xDF" "0x80 \<le> b2" "b2 \<le> 0xBF"
  shows "utf8_encode_cp (b1 mod 32 * 64 + b2 mod 64) = [b1, b2]"
proof -
  define x where "x = b1 - 0xC0"
  define y where "y = b2 - 0x80"
  have b: "b1 = 0xC0 + x" "b2 = 0x80 + y" "2 \<le> x" "x < 32" "y < 64"
    using assms by (simp_all add: x_def y_def)
  have m: "b1 mod 32 = x" "b2 mod 64 = y"
    using mod_shift [of x 32 6] mod_shift [of y 64 2] b by simp_all
  have r: "0x7F < x * 64 + y" "x * 64 + y \<le> 0x7FF" "(x * 64 + y) div 64 = x"
    "(x * 64 + y) mod 64 = y"
    using b(3,4,5) by simp_all
  show ?thesis
    unfolding m utf8_encode_cp_def using r b(1,2) by simp
qed

lemma encode_three:
  assumes "0xE0 \<le> b1" "b1 \<le> 0xEF"
    "(if b1 = 0xE0 then 0xA0 else 0x80) \<le> b2" "b2 \<le> (if b1 = 0xED then 0x9F else 0xBF)"
    "0x80 \<le> b3" "b3 \<le> 0xBF"
  shows "utf8_encode_cp ((b1 mod 16 * 64 + b2 mod 64) * 64 + b3 mod 64) = [b1, b2, b3]"
proof -
  define x where "x = b1 - 0xE0"
  define y where "y = b2 - 0x80"
  define z where "z = b3 - 0x80"
  have b2': "0x80 \<le> b2" "b2 \<le> 0xBF" using assms(3,4) by (auto split: if_splits)
  have b: "b1 = 0xE0 + x" "b2 = 0x80 + y" "b3 = 0x80 + z" "x < 16" "y < 64" "z < 64"
    using assms(1,2,5,6) b2' by (simp_all add: x_def y_def z_def)
  have lo: "x = 0 \<Longrightarrow> 32 \<le> y" using assms(1,3) by (simp add: x_def y_def split: if_splits)
  have m: "b1 mod 16 = x" "b2 mod 64 = y" "b3 mod 64 = z"
    using mod_shift [of x 16 14] mod_shift [of y 64 2] mod_shift [of z 64 2] b by simp_all
  let ?cp = "(x * 64 + y) * 64 + z"
  have r1: "0x7FF < ?cp" using lo b(4,5,6) by (cases "x = 0") simp_all
  have r2: "?cp \<le> 0xFFFF" using b(4,5,6) by simp
  have e: "?cp = x * 4096 + (y * 64 + z)" by simp
  have r3: "?cp div 4096 = x" unfolding e using b(5,6) by simp
  have r4: "?cp div 64 = x * 64 + y" using b(6) by simp
  have r5: "?cp mod 64 = z" by (rule mod_shift) (rule b(6))
  have r6: "(x * 64 + y) mod 64 = y" using b(5) by simp
  show ?thesis
    unfolding m utf8_encode_cp_def using r1 r2 r3 r4 r5 r6 b(1,2,3) by simp
qed

lemma encode_four:
  assumes "0xF0 \<le> b1" "b1 \<le> 0xF4"
    "(if b1 = 0xF0 then 0x90 else 0x80) \<le> b2" "b2 \<le> (if b1 = 0xF4 then 0x8F else 0xBF)"
    "0x80 \<le> b3" "b3 \<le> 0xBF" "0x80 \<le> b4" "b4 \<le> 0xBF"
  shows "utf8_encode_cp (((b1 mod 8 * 64 + b2 mod 64) * 64 + b3 mod 64) * 64 + b4 mod 64)
           = [b1, b2, b3, b4]"
proof -
  define x where "x = b1 - 0xF0"
  define y where "y = b2 - 0x80"
  define z where "z = b3 - 0x80"
  define t where "t = b4 - 0x80"
  have b2': "0x80 \<le> b2" "b2 \<le> 0xBF" using assms(3,4) by (auto split: if_splits)
  have b: "b1 = 0xF0 + x" "b2 = 0x80 + y" "b3 = 0x80 + z" "b4 = 0x80 + t"
    "x < 8" "y < 64" "z < 64" "t < 64"
    using assms(1,2,5,6,7,8) b2' by (simp_all add: x_def y_def z_def t_def)
  have lo: "x = 0 \<Longrightarrow> 16 \<le> y" using assms(1,3) by (simp add: x_def y_def split: if_splits)
  have m: "b1 mod 8 = x" "b2 mod 64 = y" "b3 mod 64 = z" "b4 mod 64 = t"
    using mod_shift [of x 8 30] mod_shift [of y 64 2] mod_shift [of z 64 2]
      mod_shift [of t 64 2] b by simp_all
  let ?cp = "((x * 64 + y) * 64 + z) * 64 + t"
  have r1: "0xFFFF < ?cp" using lo b(5,6,7,8) by (cases "x = 0") simp_all
  have e: "?cp = x * 262144 + ((y * 64 + z) * 64 + t)" by simp
  have r3: "?cp div 262144 = x" unfolding e using b(6,7,8) by simp
  have e2: "?cp = (x * 64 + y) * 4096 + (z * 64 + t)" by simp
  have r4: "?cp div 4096 = x * 64 + y" unfolding e2 using b(7,8) by simp
  have r5: "?cp div 64 = (x * 64 + y) * 64 + z" using b(8) by simp
  have r6: "?cp mod 64 = t" by (rule mod_shift) (rule b(8))
  have r7: "(x * 64 + y) mod 64 = y" "((x * 64 + y) * 64 + z) mod 64 = z"
    by (rule mod_shift, rule b(6), rule mod_shift, rule b(7))
  show ?thesis
    unfolding m utf8_encode_cp_def using r1 r3 r4 r5 r6 r7 b(1,2,3,4) by simp
qed


lemma well_formed_utf8_Nil: "well_formed_utf8 []"
  by (simp add: well_formed_utf8.simps)

lemma well_formed_utf8_cases:
  assumes "well_formed_utf8 (b1 # r)"
  obtains (one) "b1 \<le> 0x7F" "well_formed_utf8 r"
  | (two) b2 r' where "r = b2 # r'" "0xC2 \<le> b1" "b1 \<le> 0xDF" "0x80 \<le> b2" "b2 \<le> 0xBF"
      "well_formed_utf8 r'"
  | (three) b2 b3 r' where "r = b2 # b3 # r'" "0xE0 \<le> b1" "b1 \<le> 0xEF"
      "(if b1 = 0xE0 then 0xA0 else 0x80) \<le> b2" "b2 \<le> (if b1 = 0xED then 0x9F else 0xBF)"
      "0x80 \<le> b3" "b3 \<le> 0xBF" "well_formed_utf8 r'"
  | (four) b2 b3 b4 r' where "r = b2 # b3 # b4 # r'" "0xF0 \<le> b1" "b1 \<le> 0xF4"
      "(if b1 = 0xF0 then 0x90 else 0x80) \<le> b2" "b2 \<le> (if b1 = 0xF4 then 0x8F else 0xBF)"
      "0x80 \<le> b3" "b3 \<le> 0xBF" "0x80 \<le> b4" "b4 \<le> 0xBF" "well_formed_utf8 r'"
proof -
  consider "b1 \<le> 0x7F" | "0xC2 \<le> b1 \<and> b1 \<le> 0xDF" | "0xE0 \<le> b1 \<and> b1 \<le> 0xEF"
    | "0xF0 \<le> b1 \<and> b1 \<le> 0xF4"
    | "\<not> b1 \<le> 0x7F" "\<not> (0xC2 \<le> b1 \<and> b1 \<le> 0xDF)" "\<not> (0xE0 \<le> b1 \<and> b1 \<le> 0xEF)"
      "\<not> (0xF0 \<le> b1 \<and> b1 \<le> 0xF4)"
    by blast
  then show thesis
  proof cases
    case 1
    then have "well_formed_utf8 r" using assms by (subst (asm) well_formed_utf8.simps) simp
    with 1 show thesis by (rule one)
  next
    case 2
    then have w: "1 \<le> length r \<and> 0x80 \<le> r ! 0 \<and> r ! 0 \<le> 0xBF \<and> well_formed_utf8 (drop 1 r)"
      using assms by (subst (asm) well_formed_utf8.simps) simp
    then obtain b2 r' where r: "r = b2 # r'" by (cases r) auto
    show thesis using two [OF r] 2 w r by simp
  next
    case 3
    then have w: "2 \<le> length r
                 \<and> (if b1 = 0xE0 then 0xA0 else 0x80) \<le> r ! 0
                 \<and> r ! 0 \<le> (if b1 = 0xED then 0x9F else 0xBF)
                 \<and> 0x80 \<le> r ! 1 \<and> r ! 1 \<le> 0xBF \<and> well_formed_utf8 (drop 2 r)"
      using assms by (subst (asm) well_formed_utf8.simps) simp
    then obtain b2 t where r: "r = b2 # t" by (cases r) auto
    with w obtain b3 r' where t: "t = b3 # r'" by (cases t) auto
    show thesis using three [of b2 b3 r'] 3 w r t by simp
  next
    case 4
    then have w: "3 \<le> length r
                 \<and> (if b1 = 0xF0 then 0x90 else 0x80) \<le> r ! 0
                 \<and> r ! 0 \<le> (if b1 = 0xF4 then 0x8F else 0xBF)
                 \<and> 0x80 \<le> r ! 1 \<and> r ! 1 \<le> 0xBF
                 \<and> 0x80 \<le> r ! 2 \<and> r ! 2 \<le> 0xBF \<and> well_formed_utf8 (drop 3 r)"
      using assms by (subst (asm) well_formed_utf8.simps) simp
    then obtain b2 t where r: "r = b2 # t" by (cases r) auto
    with w obtain b3 t' where t: "t = b3 # t'" by (cases t) auto
    with w r obtain b4 r' where t': "t' = b4 # r'" by (cases t') auto
    show thesis using four [of b2 b3 b4 r'] 4 w r t t' by (simp add: numeral_3_eq_3)
  next
    case 5
    then have False using assms by (subst (asm) well_formed_utf8.simps) (auto split: if_splits)
    then show thesis ..
  qed
qed

lemma encode_decode_well_formed:
  "well_formed_utf8 bs \<Longrightarrow>
   concat (map utf8_encode_cp (utf8_decoder 0 0 0x80 0xBF bs)) = bs"
proof (induction bs rule: length_induct)
  case (1 bs)
  show ?case
  proof (cases bs)
    case Nil then show ?thesis by simp
  next
    case (Cons b1 r)
    with 1 have wf: "well_formed_utf8 (b1 # r)" by simp
    from wf show ?thesis
    proof (cases rule: well_formed_utf8_cases)
      case one
      have "concat (map utf8_encode_cp (utf8_decoder 0 0 0x80 0xBF r)) = r"
        using 1 Cons one by simp
      moreover have "utf8_encode_cp b1 = [b1]" using one by (simp add: utf8_encode_cp_def)
      ultimately show ?thesis
        using one Cons by (simp add: decoder_ascii del: utf8_decoder.simps)
    next
      case (two b2 r')
      have "concat (map utf8_encode_cp (utf8_decoder 0 0 0x80 0xBF r')) = r'"
        using 1 Cons two by simp
      then show ?thesis
        using two Cons by (simp add: decoder_two encode_two del: utf8_decoder.simps)
    next
      case (three b2 b3 r')
      have "concat (map utf8_encode_cp (utf8_decoder 0 0 0x80 0xBF r')) = r'"
        using 1 Cons three by simp
      then show ?thesis
        using three Cons
          decoder_three [of b1 b2 b3 r'] encode_three [of b1 b2 b3]
        by (simp del: utf8_decoder.simps)
    next
      case (four b2 b3 b4 r')
      have "concat (map utf8_encode_cp (utf8_decoder 0 0 0x80 0xBF r')) = r'"
        using 1 Cons four by simp
      then show ?thesis
        using four Cons
          decoder_four [of b1 b2 b3 b4 r'] encode_four [of b1 b2 b3 b4]
        by (simp del: utf8_decoder.simps)
    qed
  qed
qed

lemma utf8_round_trip: "well_formed_text s \<Longrightarrow> utf8_encode (utf8_decode s) = s"
  by (simp add: well_formed_text_def utf8_encode_def utf8_decode_def encode_decode_well_formed
      comp_def)


section \<open>Scalar value strings\<close>

lemma USVString_skip: "c1 \<noteq> CHR 0xED \<Longrightarrow> USVString (c1 # r) = c1 # USVString r"
proof (cases r)
  case Nil then show ?thesis by simp
next
  case (Cons c2 t)
  assume c: "c1 \<noteq> CHR 0xED"
  show ?thesis
  proof (cases t)
    case Nil with Cons show ?thesis by simp
  next
    case (Cons c3 t')
    with \<open>r = c2 # t\<close> c show ?thesis by simp
  qed
qed

lemma USVString_skip_low:
  "(of_char c2 :: nat) < 0xA0 \<Longrightarrow> USVString (c1 # c2 # r) = c1 # USVString (c2 # r)"
  by (cases r) simp_all

lemma not_ED: "(of_char c :: nat) \<noteq> 0xED \<Longrightarrow> c \<noteq> CHR 0xED"
  by auto

lemma USVString_well_formed: "well_formed_text s \<Longrightarrow> USVString s = s"
proof (induction s rule: length_induct)
  case (1 s)
  show ?case
  proof (cases s)
    case Nil then show ?thesis by simp
  next
    case (Cons c1 r)
    with 1 have wf: "well_formed_utf8 (of_char c1 # map of_char r)"
      by (simp add: well_formed_text_def)
    have IH: "\<And>t. length t < length s \<Longrightarrow> well_formed_utf8 (map of_char t) \<Longrightarrow> USVString t = t"
      using 1 by (simp add: well_formed_text_def)
    from wf show ?thesis
    proof (cases rule: well_formed_utf8_cases)
      case one
      then have "c1 \<noteq> CHR 0xED" by (intro not_ED) simp
      then show ?thesis using IH [of r] one Cons by (simp add: USVString_skip)
    next
      case (two b2 r')
      then obtain c2 rc where r: "r = c2 # rc" "b2 = of_char c2" "r' = map of_char rc"
        by (cases r) auto
      have "c1 \<noteq> CHR 0xED" "c2 \<noteq> CHR 0xED" using two r by (intro not_ED; simp)+
      then show ?thesis using IH [of rc] two r Cons by (simp add: USVString_skip)
    next
      case (three b2 b3 r')
      then obtain c2 t where r: "r = c2 # t" "b2 = of_char c2" "b3 # r' = map of_char t"
        by (cases r) auto
      then obtain c3 rc where t: "t = c3 # rc" "b3 = of_char c3" "r' = map of_char rc"
        by (cases t) auto
      have c23: "c2 \<noteq> CHR 0xED" "c3 \<noteq> CHR 0xED"
        using three r t by (intro not_ED; auto split: if_splits)+
      have "USVString (c1 # c2 # c3 # rc) = c1 # USVString (c2 # c3 # rc)"
      proof (cases "c1 = CHR 0xED")
        case True
        then have "(of_char c2 :: nat) < 0xA0" using three(5) r by simp
        then show ?thesis by (rule USVString_skip_low)
      next
        case False then show ?thesis by (rule USVString_skip)
      qed
      then show ?thesis using IH [of rc] three r t c23 Cons by (simp add: USVString_skip)
    next
      case (four b2 b3 b4 r')
      then obtain c2 t where r: "r = c2 # t" "b2 = of_char c2" "b3 # b4 # r' = map of_char t"
        by (cases r) auto
      then obtain c3 t' where t: "t = c3 # t'" "b3 = of_char c3" "b4 # r' = map of_char t'"
        by (cases t) auto
      then obtain c4 rc where t': "t' = c4 # rc" "b4 = of_char c4" "r' = map of_char rc"
        by (cases t') auto
      have c: "c1 \<noteq> CHR 0xED" "c2 \<noteq> CHR 0xED" "c3 \<noteq> CHR 0xED" "c4 \<noteq> CHR 0xED"
        using four r t t' by (intro not_ED; auto split: if_splits)+
      then show ?thesis using IH [of rc] four r t t' Cons by (simp add: USVString_skip)
    qed
  qed
qed

section \<open>Query strings round-trip\<close>

lemma hex_digit_roundtrip:
  "n < 16 \<Longrightarrow> is_hex (hex_digit n) \<and> hex_val (hex_digit n) = n \<and> hex_digit n \<noteq> CHR ''+''
     \<and> hex_digit n \<noteq> CHR ''&'' \<and> hex_digit n \<noteq> CHR ''=''"
proof -
  assume "n < 16"
  then have "n \<in> {0,1,2,3,4,5,6,7,8,9,10,11,12,13,14,15}"
    by (simp; arith)
  then show ?thesis
    by (auto simp: hex_digit_def is_hex_def hex_val_def)
qed

lemma nibble_bounds:
  "(of_char c :: nat) div 16 < 16 \<and> (of_char c :: nat) mod 16 < 16"
proof -
  have "(of_char c :: nat) < 256" by (simp add: of_char_def)
  then show ?thesis by arith
qed

lemma percent_decode_other:
  "c \<noteq> CHR ''%'' \<Longrightarrow> percent_decode (c # cs) = c # percent_decode cs"
proof (cases cs)
  case Nil then show ?thesis by simp
next
  case (Cons h t)
  assume c: "c \<noteq> CHR ''%''"
  show ?thesis
  proof (cases t)
    case Nil with Cons show ?thesis by simp
  next
    case (Cons l r)
    with \<open>cs = h # t\<close> c show ?thesis by simp
  qed
qed

lemma keep_not_special:
  "urlencoded_keep c \<Longrightarrow> c \<noteq> CHR ''%'' \<and> c \<noteq> CHR ''+'' \<and> c \<noteq> CHR ''&'' \<and> c \<noteq> CHR ''=''"
  by (auto simp: urlencoded_keep_def is_alnum_def)

lemma decode_encoded_byte:
  "percent_decode (plus_to_space (urlencoded_byte c) @ cs) = c # percent_decode cs"
proof -
  have lt: "(of_char c :: nat) div 16 < 16" "(of_char c :: nat) mod 16 < 16"
    using nibble_bounds [of c] by simp_all
  consider "c = CHR '' ''" | "c \<noteq> CHR '' ''" "urlencoded_keep c"
    | "c \<noteq> CHR '' ''" "\<not> urlencoded_keep c" by blast
  then show ?thesis
  proof cases
    case 1
    then show ?thesis
      by (simp add: urlencoded_byte_def plus_to_space_def percent_decode_other)
  next
    case 2
    then show ?thesis
      using keep_not_special [of c]
      by (simp add: urlencoded_byte_def plus_to_space_def percent_decode_other)
  next
    case 3
    then show ?thesis
      using hex_digit_roundtrip [OF lt(1)] hex_digit_roundtrip [OF lt(2)]
      by (simp add: urlencoded_byte_def plus_to_space_def)
  qed
qed

lemma plus_to_space_append: "plus_to_space (a @ b) = plus_to_space a @ plus_to_space b"
  by (simp add: plus_to_space_def)

lemma decode_encoded_string_append:
  "percent_decode (plus_to_space (urlencoded_string s) @ cs) = s @ percent_decode cs"
  by (induction s)
     (simp_all add: urlencoded_string_def plus_to_space_append decode_encoded_byte,
      simp add: plus_to_space_def)

lemma decode_encoded_string:
  "percent_decode (plus_to_space (urlencoded_string s)) = s"
  using decode_encoded_string_append [of s "[]"] by simp

lemma split_on_no_delim: "d \<notin> set x \<Longrightarrow> split_on d x = [x]"
  by (induction x) auto

lemma split_on_append: "d \<notin> set x \<Longrightarrow> split_on d (x @ d # y) = x # split_on d y"
  by (induction x) auto

lemma urlencoded_byte_chars:
  "set (urlencoded_byte c) \<inter> {CHR ''&'', CHR ''=''} = {}"
proof -
  have lt: "(of_char c :: nat) div 16 < 16" "(of_char c :: nat) mod 16 < 16"
    using nibble_bounds [of c] by simp_all
  show ?thesis
    using hex_digit_roundtrip [OF lt(1)] hex_digit_roundtrip [OF lt(2)] keep_not_special [of c]
    by (auto simp: urlencoded_byte_def)
qed

lemma urlencoded_string_chars:
  "CHR ''&'' \<notin> set (urlencoded_string s) \<and> CHR ''='' \<notin> set (urlencoded_string s)"
  using urlencoded_byte_chars by (induction s) (auto simp: urlencoded_string_def)


lemma segment_props: "CHR ''&'' \<notin> set (segment p) \<and> segment p \<noteq> []"
  using urlencoded_string_chars by (simp add: segment_def)

lemma parse_segment:
  "urlencoded_parse_pair (segment p)
     = (utf8_encode (utf8_decode (fst p)), utf8_encode (utf8_decode (snd p)))"
proof -
  have "takeWhile (\<lambda>c. c \<noteq> CHR ''='') (segment p) = urlencoded_string (fst p)"
    using urlencoded_string_chars [of "fst p"]
    by (auto simp: segment_def takeWhile_tail)
  then show ?thesis
    by (simp add: urlencoded_parse_pair_def urlencoded_decode_def Let_def decode_encoded_string)
       (simp add: segment_def decode_encoded_string)
qed

lemma split_join_segments:
  "filter (\<lambda>b. b \<noteq> []) (split_on CHR ''&'' (join ''&'' (map segment sp))) = map segment sp"
proof (induction sp rule: induct_list012)
  case 1 show ?case by simp
next
  case (2 p) show ?case using segment_props [of p] by (simp add: split_on_no_delim)
next
  case (3 p q sp)
  have "join ''&'' (map segment (p # q # sp)) = segment p @ CHR ''&'' # join ''&'' (map segment (q # sp))"
    by simp
  then show ?case using 3 segment_props [of p] by (simp add: split_on_append del: join.simps)
qed

lemma parse_toString:
  "urlencoded_parse (URLSearchParams_toString sp)
     = map (\<lambda>p. (utf8_encode (utf8_decode (fst p)), utf8_encode (utf8_decode (snd p)))) sp"
proof -
  have "segment = (\<lambda>p. urlencoded_string (fst p) @ ''='' @ urlencoded_string (snd p))"
    by (rule ext) (simp add: segment_def)
  then have "URLSearchParams_toString sp = join ''&'' (map segment sp)"
    by (simp add: URLSearchParams_toString_def)
  then show ?thesis
    by (simp add: urlencoded_parse_def split_join_segments parse_segment)
qed

lemma buildURL_searchParams_foldl:
  "foldl (\<lambda>searchParams kv.
              if snd kv \<noteq> JNull \<and> snd kv \<noteq> JUndefined \<and> snd kv \<noteq> JStr []
              then URLSearchParams_append searchParams (fst kv) (String (snd kv))
              else searchParams) acc ps
     = acc @ map (\<lambda>p. (USVString (fst p), USVString (snd p))) (included_params ps)"
  by (induction ps arbitrary: acc) (simp_all add: included_params_def URLSearchParams_append_def)

lemma buildURL_searchParams_eq:
  "buildURL_searchParams ps
     = map (\<lambda>p. (USVString (fst p), USVString (snd p))) (included_params ps)"
  by (simp add: buildURL_searchParams_def buildURL_searchParams_foldl)

lemma toString_empty_iff: "URLSearchParams_toString sp = [] \<longleftrightarrow> sp = []"
proof (cases sp)
  case Nil then show ?thesis by (simp add: URLSearchParams_toString_def)
next
  case (Cons p t) then show ?thesis
    by (cases t) (simp_all add: URLSearchParams_toString_def)
qed


lemma well_formed_params:
  assumes "list_all (\<lambda>p. well_formed_text (fst p) \<and> well_formed_text (snd p)) sp"
  shows "map (\<lambda>p. (USVString (fst p), USVString (snd p))) sp = sp"
    and "map (\<lambda>p. (utf8_encode (utf8_decode (fst p)), utf8_encode (utf8_decode (snd p)))) sp = sp"
  using assms by (induction sp) (simp_all add: USVString_well_formed utf8_round_trip)

text \<open>
  C4, as the code has it. The URL \<^verbatim>\<open>buildURL\<close> builds for a parameter object is the full
  URL followed, when any parameter is included, by \<^verbatim>\<open>?\<close> and the serialized included
  parameters: the entries whose value is \<^verbatim>\<open>null\<close>, \<^verbatim>\<open>undefined\<close> or the empty string are left
  out, every other entry is there, in order, its name and the string of its value
  converted to scalar value strings. When the names and values included are well-formed
  text (no lone surrogate), the conversion changes nothing and parsing the query string
  gives the included names and values back byte for byte.
  \<^verbatim>\<open>getUsers({ current: 2, pageSize: 20 })\<close>, with an empty or an absent search, builds the
  URL \<^verbatim>\<open>/users?current=2&pageSize=20\<close> and hands it to \<^verbatim>\<open>get\<close> without parameters, where
  \<^verbatim>\<open>buildURL\<close> only puts the base URL in front of it.
\<close>

theorem buildURL_query_string_well_formed:
  "buildURL this u (Some entries) =
     (if included_params entries = [] then buildURL_fullURL this u
      else buildURL_fullURL this u @ ''?'' @
           URLSearchParams_toString
             (map (\<lambda>p. (USVString (fst p), USVString (snd p))) (included_params entries)))
   \<and> (list_all (\<lambda>p. well_formed_text (fst p) \<and> well_formed_text (snd p))
         (included_params entries) \<longrightarrow>
        map (\<lambda>p. (USVString (fst p), USVString (snd p))) (included_params entries)
          = included_params entries
        \<and> urlencoded_parse
            (URLSearchParams_toString
               (map (\<lambda>p. (USVString (fst p), USVString (snd p))) (included_params entries)))
          = included_params entries)
   \<and> getUsers_url (Some \<lparr>current = 2, pageSize = 20, search = Some []\<rparr>)
        = ''/users?current=2&pageSize=20''
   \<and> getUsers_url (Some \<lparr>current = 2, pageSize = 20, search = None\<rparr>)
        = ''/users?current=2&pageSize=20''
   \<and> getUsers this fetch ps w = request this fetch (descriptor (getUsers_url ps) GET) w
   \<and> buildURL this ''/users?current=2&pageSize=20'' None
        = baseURL this @ ''/users?current=2&pageSize=20''"
proof -
  let ?usv = "map (\<lambda>p. (USVString (fst p), USVString (snd p))) (included_params entries)"
  have a: "buildURL this u (Some entries) =
     (if included_params entries = [] then buildURL_fullURL this u
      else buildURL_fullURL this u @ ''?'' @ URLSearchParams_toString ?usv)"
    by (simp add: buildURL_def Let_def buildURL_searchParams_eq toString_empty_iff)
  have b: "list_all (\<lambda>p. well_formed_text (fst p) \<and> well_formed_text (snd p))
         (included_params entries) \<longrightarrow>
        ?usv = included_params entries
        \<and> urlencoded_parse (URLSearchParams_toString ?usv) = included_params entries"
    using well_formed_params [of "included_params entries"]
    by (simp add: parse_toString)
  have d2: "digits 2 = ''2''" and d20: "digits 20 = ''20''"
    by (simp_all add: digits.simps digit_char_def)
  have enc: "urlencoded_string ''current'' = ''current''" "urlencoded_string ''pageSize'' = ''pageSize''"
       "urlencoded_string ''2'' = ''2''" "urlencoded_string ''20'' = ''20''"
    by (simp_all add: urlencoded_string_def urlencoded_byte_def urlencoded_keep_def is_alnum_def)
  have c: "getUsers_url (Some \<lparr>current = 2, pageSize = 20, search = Some []\<rparr>)
        = ''/users?current=2&pageSize=20''"
    by (simp add: getUsers_url_def URLSearchParams_set_def Let_def d2 d20
        URLSearchParams_toString_def enc)
  have c': "getUsers_url (Some \<lparr>current = 2, pageSize = 20, search = None\<rparr>)
        = ''/users?current=2&pageSize=20''"
    by (simp add: getUsers_url_def URLSearchParams_set_def Let_def d2 d20
        URLSearchParams_toString_def enc)
  have g: "getUsers this fetch ps w = request this fetch (descriptor (getUsers_url ps) GET) w"
    by (simp add: getUsers_def get_def spread_def descriptor_def)
  have e: "buildURL this ''/users?current=2&pageSize=20'' None
        = baseURL this @ ''/users?current=2&pageSize=20''"
    by (simp add: buildURL_def buildURL_fullURL_def startsWith_def)
  show ?thesis using a b c c' g e by blast
qed

text \<open>
  An instance: a value with a space and an ampersand, an empty value, a \<^verbatim>\<open>null\<close>, a number
  and a value outside ASCII (e with an acute accent, two bytes). The empty and the
  \<^verbatim>\<open>null\<close> entries are left out, and the query string parses back to the other three.
\<close>

theorem buildURL_query_string_well_formed_witness:
  "included_params
      [(''q'', JStr ''a b&c''), (''empty'', JStr []), (''n'', JNull), (''page'', JNum 2),
       (''name'', JStr [CHR 0xC3, CHR 0xA9])]
     = [(''q'', ''a b&c''), (''page'', ''2''), (''name'', [CHR 0xC3, CHR 0xA9])]
   \<and> list_all (\<lambda>p. well_formed_text (fst p) \<and> well_formed_text (snd p))
        [(''q'', ''a b&c''), (''page'', ''2''), (''name'', [CHR 0xC3, CHR 0xA9])]
   \<and> urlencoded_parse
        (URLSearchParams_toString
           (map (\<lambda>p. (USVString (fst p), USVString (snd p)))
              [(''q'', ''a b&c''), (''page'', ''2''), (''name'', [CHR 0xC3, CHR 0xA9])]))
     = [(''q'', ''a b&c''), (''page'', ''2''), (''name'', [CHR 0xC3, CHR 0xA9])]"
proof -
  let ?entries = "[(''q'', JStr ''a b&c''), (''empty'', JStr []), (''n'', JNull), (''page'', JNum 2),
       (''name'', JStr [CHR 0xC3, CHR 0xA9])]"
  let ?inc = "[(''q'', ''a b&c''), (''page'', ''2''), (''name'', [CHR 0xC3, CHR 0xA9])]"
  have d2: "digits 2 = ''2''" by (simp add: digits.simps digit_char_def)
  have i: "included_params ?entries = ?inc"
    by (simp add: included_params_def d2)
  have w: "list_all (\<lambda>p. well_formed_text (fst p) \<and> well_formed_text (snd p)) ?inc"
    by (simp add: well_formed_text_def well_formed_utf8.simps)
  show ?thesis
    using i w buildURL_query_string_well_formed [of _ _ ?entries]
    by simp
qed

text \<open>
  C4 as stated fails at a value that holds a lone surrogate, here the string of the code
  units \<^verbatim>\<open>a\<close>, \<^verbatim>\<open>D800\<close>, \<^verbatim>\<open>b\<close>: the query string carries U+FFFD in its place, and decoding gives
  \<^verbatim>\<open>a\<close>, U+FFFD, \<^verbatim>\<open>b\<close>, not the value.
\<close>

theorem lone_surrogate_does_not_round_trip:
  "included_params [(''q'', JStr [CHR 0x61, CHR 0xED, CHR 0xA0, CHR 0x80, CHR 0x62])]
     = [(''q'', [CHR 0x61, CHR 0xED, CHR 0xA0, CHR 0x80, CHR 0x62])]
   \<and> buildURL (http None) ''/search''
        (Some [(''q'', JStr [CHR 0x61, CHR 0xED, CHR 0xA0, CHR 0x80, CHR 0x62])])
     = ''/api/search?q=a%EF%BF%BDb''
   \<and> urlencoded_parse ''q=a%EF%BF%BDb''
     = [(''q'', [CHR 0x61, CHR 0xEF, CHR 0xBF, CHR 0xBD, CHR 0x62])]
   \<and> urlencoded_parse ''q=a%EF%BF%BDb''
     \<noteq> included_params [(''q'', JStr [CHR 0x61, CHR 0xED, CHR 0xA0, CHR 0x80, CHR 0x62])]"
proof -
  have i: "included_params [(''q'', JStr [CHR 0x61, CHR 0xED, CHR 0xA0, CHR 0x80, CHR 0x62])]
     = [(''q'', [CHR 0x61, CHR 0xED, CHR 0xA0, CHR 0x80, CHR 0x62])]"
    by (simp add: included_params_def)
  have h: "hex_digit 14 = CHR ''E''" "hex_digit 15 = CHR ''F''" "hex_digit 11 = CHR ''B''"
    "hex_digit 13 = CHR ''D''"
    by (simp_all add: hex_digit_def)
  have b: "buildURL (http None) ''/search''
        (Some [(''q'', JStr [CHR 0x61, CHR 0xED, CHR 0xA0, CHR 0x80, CHR 0x62])])
     = ''/api/search?q=a%EF%BF%BDb''"
    by (simp add: buildURL_def buildURL_fullURL_def startsWith_def client_defs API_BASE_URL_def
        buildURL_searchParams_def URLSearchParams_append_def URLSearchParams_toString_def
        urlencoded_string_def urlencoded_byte_def urlencoded_keep_def is_alnum_def h Let_def)
  have ch: "char_of (113 :: nat) = CHR ''q''" "char_of (97 :: nat) = CHR ''a''"
    "char_of (239 :: nat) = CHR 0xEF" "char_of (191 :: nat) = CHR 0xBF"
    "char_of (189 :: nat) = CHR 0xBD" "char_of (98 :: nat) = CHR ''b''"
    by (simp_all add: char_of_eq_iff)
  have p: "urlencoded_parse ''q=a%EF%BF%BDb''
     = [(''q'', [CHR 0x61, CHR 0xEF, CHR 0xBF, CHR 0xBD, CHR 0x62])]"
    by (simp add: ch urlencoded_parse_def urlencoded_parse_pair_def urlencoded_decode_def
        plus_to_space_def is_hex_def hex_val_def utf8_decode_def utf8_first_def
        utf8_encode_def utf8_encode_cp_def Let_def)
  show ?thesis using i b p by simp
qed


section \<open>The request interceptor phase\<close>

lemma from_Cons_Inl:
  "f c w = (Inl e, w') \<Longrightarrow>
   applyRequestInterceptors_from i (f # fs) c w =
     ([\<lparr>call_index = i, call_argument = c, call_world = w, call_outcome = Inl e\<rparr>], Inl e, w')"
  by simp

lemma from_Cons_Inr:
  "f c w = (Inr c', w') \<Longrightarrow>
   applyRequestInterceptors_from i (f # fs) c w =
     (\<lparr>call_index = i, call_argument = c, call_world = w, call_outcome = Inr c'\<rparr>
        # fst (applyRequestInterceptors_from (Suc i) fs c' w'),
      snd (applyRequestInterceptors_from (Suc i) fs c' w'))"
  by (simp add: split_beta)

lemma interceptor_cases:
  obtains (throws) e w' where "(f :: RequestInterceptor) c w = (Inl e, w')"
        | (returns) c' w' where "f c w = (Inr c', w')"
  by (cases "f c w"; cases "fst (f c w)") auto

lemma calls_index:
  "map call_index (fst (applyRequestInterceptors_from i fs c w))
     = [i..<i + length (fst (applyRequestInterceptors_from i fs c w))]"
proof (induction fs arbitrary: i c w)
  case Nil show ?case by simp
next
  case (Cons f fs)
  show ?case
  proof (cases f c w rule: interceptor_cases)
    case (throws e w')
    then show ?thesis by (simp add: from_Cons_Inl del: applyRequestInterceptors_from.simps)
  next
    case (returns c' w')
    let ?n = "length (fst (applyRequestInterceptors_from (Suc i) fs c' w'))"
    have "[i..<i + Suc ?n] = i # [Suc i..<i + Suc ?n]" by (rule upt_conv_Cons) simp
    with returns Cons [of "Suc i" c' w'] show ?thesis
      by (simp add: from_Cons_Inr del: applyRequestInterceptors_from.simps)
  qed
qed

lemma calls_length:
  "length (fst (applyRequestInterceptors_from i fs c w)) \<le> length fs"
proof (induction fs arbitrary: i c w)
  case Nil show ?case by simp
next
  case (Cons f fs)
  show ?case
  proof (cases f c w rule: interceptor_cases)
    case (throws e w')
    then show ?thesis by (simp add: from_Cons_Inl del: applyRequestInterceptors_from.simps)
  next
    case (returns c' w')
    with Cons [of "Suc i" c' w'] show ?thesis
      by (simp add: from_Cons_Inr del: applyRequestInterceptors_from.simps)
  qed
qed

lemma calls_complete:
  "\<not> isl (fst (snd (applyRequestInterceptors_from i fs c w)))
     \<Longrightarrow> length (fst (applyRequestInterceptors_from i fs c w)) = length fs"
proof (induction fs arbitrary: i c w)
  case Nil show ?case by simp
next
  case (Cons f fs)
  show ?case
  proof (cases f c w rule: interceptor_cases)
    case (throws e w')
    with Cons.prems show ?thesis
      by (simp add: from_Cons_Inl del: applyRequestInterceptors_from.simps)
  next
    case (returns c' w')
    with Cons.prems Cons.IH [of "Suc i" c' w'] show ?thesis
      by (simp add: from_Cons_Inr del: applyRequestInterceptors_from.simps)
  qed
qed

lemma calls_outcome:
  "j < length (fst (applyRequestInterceptors_from i fs c w)) \<Longrightarrow>
   call_outcome (fst (applyRequestInterceptors_from i fs c w) ! j)
     = fst ((fs ! j) (call_argument (fst (applyRequestInterceptors_from i fs c w) ! j))
                     (call_world (fst (applyRequestInterceptors_from i fs c w) ! j)))"
proof (induction fs arbitrary: i c w j)
  case Nil then show ?case by simp
next
  case (Cons f fs)
  show ?case
  proof (cases f c w rule: interceptor_cases)
    case (throws e w')
    with Cons.prems show ?thesis
      by (simp add: from_Cons_Inl del: applyRequestInterceptors_from.simps)
  next
    case (returns c' w')
    show ?thesis
    proof (cases j)
      case 0 with returns show ?thesis
        by (simp add: from_Cons_Inr del: applyRequestInterceptors_from.simps)
    next
      case (Suc k)
      with returns Cons.prems Cons.IH [of k "Suc i" c' w'] show ?thesis
        by (simp add: from_Cons_Inr del: applyRequestInterceptors_from.simps)
    qed
  qed
qed

lemma calls_first:
  "fst (applyRequestInterceptors_from i fs c w) \<noteq> [] \<Longrightarrow>
   call_argument (hd (fst (applyRequestInterceptors_from i fs c w))) = c
   \<and> call_world (hd (fst (applyRequestInterceptors_from i fs c w))) = w"
proof (cases fs)
  case Nil
  assume "fst (applyRequestInterceptors_from i fs c w) \<noteq> []"
  with Nil show ?thesis by simp
next
  case (Cons f rest)
  show ?thesis
  proof (cases f c w rule: interceptor_cases)
    case (throws e w')
    with Cons show ?thesis by (simp add: from_Cons_Inl del: applyRequestInterceptors_from.simps)
  next
    case (returns c' w')
    with Cons show ?thesis by (simp add: from_Cons_Inr del: applyRequestInterceptors_from.simps)
  qed
qed

lemma calls_chain:
  "Suc j < length (fst (applyRequestInterceptors_from i fs c w)) \<Longrightarrow>
   call_outcome (fst (applyRequestInterceptors_from i fs c w) ! j)
     = Inr (call_argument (fst (applyRequestInterceptors_from i fs c w) ! Suc j))
   \<and> call_world (fst (applyRequestInterceptors_from i fs c w) ! Suc j)
     = snd ((fs ! j) (call_argument (fst (applyRequestInterceptors_from i fs c w) ! j))
                     (call_world (fst (applyRequestInterceptors_from i fs c w) ! j)))"
proof (induction fs arbitrary: i c w j)
  case Nil then show ?case by simp
next
  case (Cons f fs)
  show ?case
  proof (cases f c w rule: interceptor_cases)
    case (throws e w')
    with Cons.prems show ?thesis
      by (simp add: from_Cons_Inl del: applyRequestInterceptors_from.simps)
  next
    case (returns c' w')
    let ?rest = "fst (applyRequestInterceptors_from (Suc i) fs c' w')"
    have calls: "fst (applyRequestInterceptors_from i (f # fs) c w)
        = \<lparr>call_index = i, call_argument = c, call_world = w, call_outcome = Inr c'\<rparr> # ?rest"
      using returns by (simp add: from_Cons_Inr del: applyRequestInterceptors_from.simps)
    show ?thesis
    proof (cases j)
      case 0
      have ne: "?rest \<noteq> []" using Cons.prems calls 0 by auto
      have "?rest ! 0 = hd ?rest" using ne by (simp add: hd_conv_nth)
      then show ?thesis using 0 calls calls_first [OF ne] returns by simp
    next
      case (Suc k)
      with calls Cons.prems Cons.IH [of k "Suc i" c' w'] show ?thesis by simp
    qed
  qed
qed

lemma calls_result:
  "fst (snd (applyRequestInterceptors_from i fs c w))
     = (if fst (applyRequestInterceptors_from i fs c w) = [] then Inr c
        else call_outcome (last (fst (applyRequestInterceptors_from i fs c w))))"
proof (induction fs arbitrary: i c w)
  case Nil show ?case by simp
next
  case (Cons f fs)
  show ?case
  proof (cases f c w rule: interceptor_cases)
    case (throws e w')
    then show ?thesis by (simp add: from_Cons_Inl del: applyRequestInterceptors_from.simps)
  next
    case (returns c' w')
    with Cons [of "Suc i" c' w'] show ?thesis
      by (simp add: from_Cons_Inr del: applyRequestInterceptors_from.simps)
  qed
qed

text \<open>
  C3, as the code has it. The request interceptors are invoked in registration order,
  each at most once and the earlier ones first: the invocations are those of the
  positions \<open>0, 1, ...\<close> up to the last one reached. Every invocation is the registered
  interceptor of its position, called with the recorded descriptor in the recorded
  world. The first one receives the descriptor of the call; each later one receives
  exactly the descriptor the one before it returned, in the world that one left (the
  await). The phase ends with the last outcome. When the phase completes, every
  registered interceptor has been invoked exactly once; an interceptor that throws ends
  the phase, and the later ones are not invoked. The default interceptor is the first of
  a new client, and \<^verbatim>\<open>addRequestInterceptor\<close> appends.
\<close>

theorem request_interceptors_in_order:
  "length (requestInterceptor_calls this config w) \<le> length (requestInterceptors this)
   \<and> map call_index (requestInterceptor_calls this config w)
       = [0..<length (requestInterceptor_calls this config w)]
   \<and> (\<forall>j. j < length (requestInterceptor_calls this config w) \<longrightarrow>
          call_outcome (requestInterceptor_calls this config w ! j)
            = fst ((requestInterceptors this ! j)
                     (call_argument (requestInterceptor_calls this config w ! j))
                     (call_world (requestInterceptor_calls this config w ! j))))
   \<and> (requestInterceptor_calls this config w \<noteq> [] \<longrightarrow>
          call_argument (hd (requestInterceptor_calls this config w)) = config
          \<and> call_world (hd (requestInterceptor_calls this config w)) = w)
   \<and> (\<forall>j. Suc j < length (requestInterceptor_calls this config w) \<longrightarrow>
          call_outcome (requestInterceptor_calls this config w ! j)
            = Inr (call_argument (requestInterceptor_calls this config w ! Suc j))
          \<and> call_world (requestInterceptor_calls this config w ! Suc j)
            = snd ((requestInterceptors this ! j)
                     (call_argument (requestInterceptor_calls this config w ! j))
                     (call_world (requestInterceptor_calls this config w ! j))))
   \<and> fst (applyRequestInterceptors this config w)
       = (if requestInterceptor_calls this config w = [] then Inr config
          else call_outcome (last (requestInterceptor_calls this config w)))
   \<and> (\<not> isl (fst (applyRequestInterceptors this config w)) \<longrightarrow> each_invoked_once this config w)
   \<and> requestInterceptors (new_HttpClient b t) = [defaultRequestInterceptor]
   \<and> requestInterceptors (addRequestInterceptor this f) = requestInterceptors this @ [f]"
proof -
  let ?run = "applyRequestInterceptors_from 0 (requestInterceptors this) config w"
  have calls: "requestInterceptor_calls this config w = fst ?run"
    by (simp add: requestInterceptor_calls_def)
  have res: "fst (applyRequestInterceptors this config w) = fst (snd ?run)"
    by (simp add: applyRequestInterceptors_def)
  have 1: "length (fst ?run) \<le> length (requestInterceptors this)" by (rule calls_length)
  have 2: "map call_index (fst ?run) = [0..<length (fst ?run)]"
    using calls_index [of 0 "requestInterceptors this" config w] by simp
  have 7: "\<not> isl (fst (snd ?run)) \<longrightarrow> each_invoked_once this config w"
    using calls_complete [of 0 "requestInterceptors this" config w] 2
    by (simp add: each_invoked_once_def calls)
  have 8: "requestInterceptors (new_HttpClient b t) = [defaultRequestInterceptor]"
    by (simp add: new_HttpClient_def setupDefaultInterceptors_def addRequestInterceptor_def
        addResponseInterceptor_def addErrorInterceptor_def)
  have 9: "requestInterceptors (addRequestInterceptor this f) = requestInterceptors this @ [f]"
    by (simp add: addRequestInterceptor_def)
  show ?thesis
    unfolding calls res
    using 1 2 7 8 9 calls_outcome [of _ 0 "requestInterceptors this" config w]
      calls_first [of 0 "requestInterceptors this" config w]
      calls_chain [of _ 0 "requestInterceptors this" config w]
      calls_result [of 0 "requestInterceptors this" config w]
    unfolding calls res
    by blast
qed

text \<open>
  C3 as stated fails: with the default interceptor, a throwing interceptor and a third
  one registered in this order, the third is never invoked.
\<close>

theorem later_interceptor_not_invoked:
  "\<not> each_invoked_once
       (addRequestInterceptor (addRequestInterceptor (http None) throwing_interceptor)
          trace_interceptor)
       (descriptor ''/users'' GET) world0"
  by (simp add: each_invoked_once_def requestInterceptor_calls_def client_defs
      defaultRequestInterceptor_def throwing_interceptor_def storageUtils_get_def world0_def
      Let_def)

text \<open>
  An instance: the default interceptor and one more, with a stored token. Both are
  invoked, and the second receives what the first returned.
\<close>

theorem request_interceptors_in_order_witness:
  "\<not> isl (fst (applyRequestInterceptors (addRequestInterceptor (http None) trace_interceptor)
                 (descriptor ''/users'' GET) world_token))
   \<and> each_invoked_once (addRequestInterceptor (http None) trace_interceptor)
        (descriptor ''/users'' GET) world_token
   \<and> length (requestInterceptor_calls (addRequestInterceptor (http None) trace_interceptor)
        (descriptor ''/users'' GET) world_token) = 2
   \<and> call_outcome (requestInterceptor_calls (addRequestInterceptor (http None) trace_interceptor)
        (descriptor ''/users'' GET) world_token ! 0)
      = Inr (call_argument (requestInterceptor_calls
               (addRequestInterceptor (http None) trace_interceptor)
               (descriptor ''/users'' GET) world_token ! 1))"
proof -
  let ?cl = "addRequestInterceptor (http None) trace_interceptor"
  let ?cfg = "descriptor ''/users'' GET"
  have ok: "\<not> isl (fst (applyRequestInterceptors ?cl ?cfg world_token))"
    by (simp add: applyRequestInterceptors_def client_defs defaultRequestInterceptor_def
        trace_interceptor_def storageUtils_get_def world_token_def world0_def
        STORAGE_KEYS_TOKEN_def Let_def)
  have len: "length (requestInterceptor_calls ?cl ?cfg world_token) = 2"
    by (simp add: requestInterceptor_calls_def client_defs defaultRequestInterceptor_def
        trace_interceptor_def storageUtils_get_def world_token_def world0_def
        STORAGE_KEYS_TOKEN_def Let_def)
  show ?thesis
    using ok len request_interceptors_in_order [of ?cl ?cfg world_token]
    by (simp add: numeral_2_eq_2)
qed


section \<open>The error path\<close>

lemma applyErrorInterceptors_foldl:
  "applyErrorInterceptors_list fs error w = foldl (\<lambda>w f. snd (f error w)) w fs"
  by (induction fs arbitrary: w) simp_all

lemma get_prop_defined:
  "error \<noteq> JUndefined \<Longrightarrow> error \<noteq> JNull \<Longrightarrow> \<exists>v. get_prop error k = Inr v"
  by (cases error) simp_all

lemma request_catch_normalizes:
  assumes "error \<noteq> JUndefined" and "error \<noteq> JNull"
  shows "\<exists>c m. get_prop error ''code'' = Inr c \<and> get_prop error ''message'' = Inr m
           \<and> request_catch this error w
               = (Inl (apiError_of c m error),
                  foldl (\<lambda>w f. snd (f (apiError_of c m error) w)) w (errorInterceptors this))"
proof -
  obtain c where c: "get_prop error ''code'' = Inr c"
    using get_prop_defined [OF assms] by blast
  obtain m where m: "get_prop error ''message'' = Inr m"
    using get_prop_defined [OF assms] by blast
  show ?thesis
    using c m
    by (simp add: request_catch_def applyErrorInterceptors_def applyErrorInterceptors_foldl Let_def)
qed

lemma apiError_status: "get_prop (apiError_of c m error) ''status'' = Inr JUndefined"
  by (simp add: apiError_of_def)

lemma apiError_message:
  "get_prop (apiError_of c m error) ''message'' = Inr (js_or m (JStr ERROR_MESSAGES_UNKNOWN_ERROR))"
  by (simp add: apiError_of_def)

lemma defaultErrorInterceptor_apiError:
  "defaultErrorInterceptor (apiError_of c m error) w
     = (Inl (apiError_of c m error),
        message_error (js_or m (JStr ERROR_MESSAGES_UNKNOWN_ERROR)) w)"
  by (simp add: defaultErrorInterceptor_def apiError_status apiError_message js_or_def
      ERROR_MESSAGES_UNKNOWN_ERROR_def)

text \<open>
  C1 fails at a request interceptor that rejects with \<^verbatim>\<open>undefined\<close> (as
  \<^verbatim>\<open>() => Promise.reject()\<close> does): reading \<^verbatim>\<open>error.code\<close> in the \<^verbatim>\<open>catch\<close> block throws a
  TypeError. The caller receives that TypeError, not an Error Object, and the world is
  unchanged: no error interceptor has run, no notice is shown.
\<close>

theorem request_rejected_undefined:
  "get (addRequestInterceptor (http None) reject_undefined) fetch ''/users'' None None world0
     = (Inl (TypeError ''Cannot read properties of undefined''), world0)"
  by (simp add: get_def request_def request_try_def request_prepare_def
      applyRequestInterceptors_def client_defs defaultRequestInterceptor_def
      reject_undefined_def storageUtils_get_def world0_def spread_def descriptor_def
      request_catch_def Let_def)

text \<open>
  C2 fails at any 401 response. The default response interceptor throws an Error with
  the body's message and no status; the Error Object built from it has no \<^verbatim>\<open>status\<close>
  either, so the default error interceptor takes its last branch. The token stays in
  the storage, no redirect is made, and the notice is the body's message, not the
  unauthorized one.
\<close>

theorem unauthorized_keeps_token:
  "get (http None) (respond (401, Inr (JObj [(''message'', JStr ''Unauthorized'')]), Inr []))
       ''/users'' None None world_token
     = (Inl (apiError_of JUndefined (JStr ''Unauthorized'') (new_Error (JStr ''Unauthorized''))),
        world_token\<lparr>message_errors := [JStr ''Unauthorized'']\<rparr>)
   \<and> storageUtils_get
        (snd (get (http None)
               (respond (401, Inr (JObj [(''message'', JStr ''Unauthorized'')]), Inr []))
               ''/users'' None None world_token)) STORAGE_KEYS_TOKEN = JStr ''abc''
   \<and> href_assigned
        (snd (get (http None)
               (respond (401, Inr (JObj [(''message'', JStr ''Unauthorized'')]), Inr []))
               ''/users'' None None world_token)) = []"
proof -
  let ?r = "get (http None) (respond (401, Inr (JObj [(''message'', JStr ''Unauthorized'')]), Inr []))
       ''/users'' None None world_token"
  have "request_try (http None)
          (respond (401, Inr (JObj [(''message'', JStr ''Unauthorized'')]), Inr []))
          (descriptor ''/users'' GET) world_token
        = (Inl (new_Error (JStr ''Unauthorized'')), world_token)"
    by (simp add: request_try_def request_prepare_def applyRequestInterceptors_def client_defs
        defaultRequestInterceptor_def storageUtils_get_def world_token_def world0_def
        descriptor_def request_fetchOptions_def request_timeout_def AbortSignal_timeout_def
        respond_def applyResponseInterceptors_def Response_js_def
        defaultResponseInterceptor_def ok_def js_or_def Let_def)
  moreover have "request_catch (http None) (new_Error (JStr ''Unauthorized'')) world_token
        = (Inl (apiError_of JUndefined (JStr ''Unauthorized'') (new_Error (JStr ''Unauthorized''))),
           world_token\<lparr>message_errors := [JStr ''Unauthorized'']\<rparr>)"
    by (simp add: request_catch_def new_Error_def applyErrorInterceptors_def client_defs
        defaultErrorInterceptor_apiError js_or_def message_error_def world_token_def world0_def)
  ultimately have r: "?r = (Inl (apiError_of JUndefined (JStr ''Unauthorized'')
                               (new_Error (JStr ''Unauthorized''))),
                      world_token\<lparr>message_errors := [JStr ''Unauthorized'']\<rparr>)"
    by (simp add: get_def request_def spread_def descriptor_def)
  show ?thesis
    unfolding r
    by (simp add: storageUtils_get_def world_token_def world0_def)
qed


section \<open>The default response interceptor\<close>

lemma read_prop_defined:
  "v \<noteq> JUndefined \<Longrightarrow> v \<noteq> JNull \<Longrightarrow> get_prop v k = Inr (read_prop v k)"
  by (cases v) (simp_all add: read_prop_def)

lemma request_catch_object:
  assumes "error \<noteq> JUndefined" and "error \<noteq> JNull"
  shows "request_catch this error w
           = (Inl (apiError_of (read_prop error ''code'') (read_prop error ''message'') error),
              foldl (\<lambda>w f. snd (f (apiError_of (read_prop error ''code'')
                                      (read_prop error ''message'') error) w))
                w (errorInterceptors this))"
  by (simp add: request_catch_def read_prop_defined [OF assms] applyErrorInterceptors_def
      applyErrorInterceptors_foldl Let_def)

lemma defaultResponseInterceptor_ok:
  "ok st \<Longrightarrow> defaultResponseInterceptor (JResponse st (Inr d) bl) w = (Inr d, w)"
  by (simp add: defaultResponseInterceptor_def)

lemma defaultResponseInterceptor_not_ok:
  "\<not> ok st \<Longrightarrow> d \<noteq> JNull \<Longrightarrow> d \<noteq> JUndefined \<Longrightarrow>
   defaultResponseInterceptor (JResponse st (Inr d) bl) w
     = (Inl (new_Error (js_or (read_prop d ''message'') (JStr ERROR_MESSAGES_SERVER_ERROR))), w)"
  by (simp add: defaultResponseInterceptor_def read_prop_defined)

lemma defaultResponseInterceptor_parse_failure:
  "defaultResponseInterceptor (JResponse st (Inl e) bl) w = (Inl e, w)"
  by (simp add: defaultResponseInterceptor_def)

lemma conflict_response_message:
  "fst (post (http None) (respond (409, Inr email_exists_body, Inr []))
          ''/users'' (JObj [(''email'', JStr ''a@b.c'')]) None world0)
     = Inl (apiError_of JUndefined (JStr EMAIL_EXISTS) (new_Error (JStr EMAIL_EXISTS)))
   \<and> get_prop (apiError_of JUndefined (JStr EMAIL_EXISTS) (new_Error (JStr EMAIL_EXISTS)))
        ''message'' = Inr (JStr EMAIL_EXISTS)"
proof -
  have t: "request_try (http None) (respond (409, Inr email_exists_body, Inr []))
             ((descriptor ''/users'' POST)\<lparr>data := JObj [(''email'', JStr ''a@b.c'')]\<rparr>) world0
           = (Inl (new_Error (JStr EMAIL_EXISTS)), world0)"
    by (simp add: request_try_def request_prepare_def applyRequestInterceptors_def client_defs
        defaultRequestInterceptor_def storageUtils_get_def world0_def
        descriptor_def request_fetchOptions_def request_timeout_def AbortSignal_timeout_def
        respond_def applyResponseInterceptors_def Response_js_def
        defaultResponseInterceptor_def ok_def js_or_def email_exists_body_def EMAIL_EXISTS_def
        Let_def)
  have c: "fst (post (http None) (respond (409, Inr email_exists_body, Inr []))
             ''/users'' (JObj [(''email'', JStr ''a@b.c'')]) None world0)
       = Inl (apiError_of JUndefined (JStr EMAIL_EXISTS) (new_Error (JStr EMAIL_EXISTS)))"
    using t
    by (simp add: post_def request_def spread_def request_catch_def new_Error_def Let_def)
  have m: "get_prop (apiError_of JUndefined (JStr EMAIL_EXISTS) (new_Error (JStr EMAIL_EXISTS)))
        ''message'' = Inr (JStr EMAIL_EXISTS)"
    by (simp add: apiError_of_def js_or_def EMAIL_EXISTS_def)
  show ?thesis using c m by blast
qed

text \<open>
  C5 fails at a response with a status outside 200 to 299 whose body is not JSON, here a
  502 with an HTML page. The body supplies no message, so the error raised should carry
  the generic server-error message; but the interceptor parses the body before it looks
  at the status, and what it raises is the parse failure. The caller of \<^verbatim>\<open>get\<close> receives an
  Error Object with the parse failure's message.
\<close>

theorem non_json_body_raises_parse_failure:
  "defaultResponseInterceptor
      (JResponse 502 (Inl (SyntaxError ''Unexpected token < in JSON at position 0'')) (Inr []))
      world0
     = (Inl (SyntaxError ''Unexpected token < in JSON at position 0''), world0)
   \<and> get_prop (SyntaxError ''Unexpected token < in JSON at position 0'') ''message''
       \<noteq> Inr (JStr ERROR_MESSAGES_SERVER_ERROR)
   \<and> fst (get (http None)
            (respond (502, Inl (SyntaxError ''Unexpected token < in JSON at position 0''), Inr []))
            ''/users'' None None world0)
       = Inl (apiError_of JUndefined (JStr ''Unexpected token < in JSON at position 0'')
                (SyntaxError ''Unexpected token < in JSON at position 0''))"
proof -
  have t: "request_try (http None)
             (respond (502, Inl (SyntaxError ''Unexpected token < in JSON at position 0''), Inr []))
             (descriptor ''/users'' GET) world0
           = (Inl (SyntaxError ''Unexpected token < in JSON at position 0''), world0)"
    by (simp add: request_try_def request_prepare_def applyRequestInterceptors_def client_defs
        defaultRequestInterceptor_def storageUtils_get_def world0_def
        descriptor_def request_fetchOptions_def request_timeout_def AbortSignal_timeout_def
        respond_def applyResponseInterceptors_def Response_js_def
        defaultResponseInterceptor_def Let_def)
  show ?thesis
    using t
    by (simp add: defaultResponseInterceptor_def SyntaxError_def ERROR_MESSAGES_SERVER_ERROR_def
        get_def request_def spread_def descriptor_def request_catch_def Let_def)
qed


section \<open>What the transport is called with\<close>

lemma request_prepare_Inr:
  assumes "applyRequestInterceptors this config w = (Inr finalConfig, w1)"
      and "request_prepare this config w = (Inr (u, opts), w1')"
  shows "w1' = w1 \<and> u = buildURL this (url finalConfig) (params finalConfig)
         \<and> request_fetchOptions this finalConfig = Inr opts"
  using assms by (auto simp: request_prepare_def split: sum.splits)

lemma request_fetchOptions_signal:
  "request_fetchOptions this finalConfig = Inr opts \<Longrightarrow>
   signal opts = Some (request_timeout this finalConfig)"
  by (auto simp: request_fetchOptions_def Let_def AbortSignal_timeout_def
      split: if_splits jsval.splits)

lemma request_fetchOptions_headers:
  "request_fetchOptions this finalConfig = Inr opts \<Longrightarrow>
   init_headers opts =
     (if is_FormData (data finalConfig)
         \<and> (method_of finalConfig = POST \<or> method_of finalConfig = PUT
              \<or> method_of finalConfig = PATCH)
      then (merged_headers finalConfig)(''Content-Type'' := None)
      else merged_headers finalConfig)"
  by (cases "data finalConfig")
     (auto simp: request_fetchOptions_def Let_def AbortSignal_timeout_def merged_headers_def
        method_of_def split: if_splits option.splits)

lemma request_calls_fetch:
  assumes "request_prepare this config w = (Inr (u, opts), w1)"
  shows "request this fetch config w =
     (case fetch u opts w1 of
        (Inl e, w2) \<Rightarrow> request_catch this e w2
      | (Inr r, w2) \<Rightarrow>
          (case applyResponseInterceptors this (Response_js r) w2 of
             (Inl e, w3) \<Rightarrow> request_catch this e w3
           | (Inr d, w3) \<Rightarrow> (Inr d, w3)))"
  using assms by (simp add: request_def request_try_def split: prod.splits sum.splits)

lemma request_fetchOptions_body:
  "request_fetchOptions this finalConfig = Inr opts \<Longrightarrow>
   body opts =
     (if truthy (data finalConfig)
         \<and> (http_method finalConfig = Some POST \<or> http_method finalConfig = Some PUT
              \<or> http_method finalConfig = Some PATCH)
      then (case data finalConfig of
              JFormData fd \<Rightarrow> Some (Body_FormData fd)
            | d \<Rightarrow> Some (Body_JSON_stringify d))
      else None)"
  by (auto simp: request_fetchOptions_def Let_def AbortSignal_timeout_def
      split: if_splits jsval.splits option.splits)

text \<open>
  C6, as the code has it. The transport is called with the signal
  \<^verbatim>\<open>AbortSignal.timeout(ms)\<close> where \<open>ms\<close>, the configured timeout, is the descriptor's
  timeout override when that is present and not zero, and the client default otherwise.
  For every call where the network brings no response within the configured timeout
  (later, or never), the call in flight is aborted: \<^verbatim>\<open>fetch\<close> rejects with the
  \<^verbatim>\<open>TimeoutError\<close> and leaves the world as it was when called. The call then rejects with
  the Error Object built from the \<^verbatim>\<open>TimeoutError\<close>: its code is 23, its details are the
  \<^verbatim>\<open>TimeoutError\<close>, whose name says so. No response interceptor runs, and the only effects
  after the abort are those of the error interceptors, each run once on that object.
\<close>

theorem request_timeout_aborts:
  assumes "applyRequestInterceptors this config w = (Inr finalConfig, w1)"
      and "request_prepare this config w = (Inr (u, opts), w1)"
      and "net u opts w1 = (latency, outcome, w2)"
      and "\<not> arrives_within latency
               (case timeout finalConfig of
                  None \<Rightarrow> this_timeout this
                | Some t \<Rightarrow> if t \<noteq> 0 then t else this_timeout this)"
  shows "signal opts =
           Some (case timeout finalConfig of
                   None \<Rightarrow> this_timeout this
                 | Some t \<Rightarrow> if t \<noteq> 0 then t else this_timeout this)
         \<and> fetch_with_signal net u opts w1 = (Inl TimeoutError, w1)
         \<and> request this (fetch_with_signal net) config w
             = (Inl (apiError_of (JNum 23) (JStr ''signal timed out'') TimeoutError),
                foldl (\<lambda>w f. snd (f (apiError_of (JNum 23) (JStr ''signal timed out'')
                                        TimeoutError) w))
                  w1 (errorInterceptors this))
         \<and> get_prop (apiError_of (JNum 23) (JStr ''signal timed out'') TimeoutError) ''code''
             = Inr (JNum 23)
         \<and> get_prop TimeoutError ''name'' = Inr (JStr ''TimeoutError'')"
proof -
  have opts: "request_fetchOptions this finalConfig = Inr opts"
    using request_prepare_Inr [OF assms(1,2)] by simp
  have s: "signal opts =
           Some (case timeout finalConfig of
                   None \<Rightarrow> this_timeout this
                 | Some t \<Rightarrow> if t \<noteq> 0 then t else this_timeout this)"
    using request_fetchOptions_signal [OF opts] by (simp add: request_timeout_def)
  have f: "fetch_with_signal net u opts w1 = (Inl TimeoutError, w1)"
    using assms(3,4) s by (simp add: fetch_with_signal_def)
  have ne: "TimeoutError \<noteq> JUndefined" "TimeoutError \<noteq> JNull"
    by (simp_all add: TimeoutError_def)
  have rp: "read_prop TimeoutError ''code'' = JNum 23"
           "read_prop TimeoutError ''message'' = JStr ''signal timed out''"
    by (simp_all add: read_prop_def TimeoutError_def)
  have r: "request this (fetch_with_signal net) config w
             = (Inl (apiError_of (JNum 23) (JStr ''signal timed out'') TimeoutError),
                foldl (\<lambda>w f. snd (f (apiError_of (JNum 23) (JStr ''signal timed out'')
                                        TimeoutError) w))
                  w1 (errorInterceptors this))"
    using request_calls_fetch [OF assms(2), of "fetch_with_signal net"] f
      request_catch_object [OF ne, of this w1] rp
    by simp
  have c: "get_prop (apiError_of (JNum 23) (JStr ''signal timed out'') TimeoutError) ''code''
             = Inr (JNum 23)"
    by (simp add: apiError_of_def js_or_def)
  have n: "get_prop TimeoutError ''name'' = Inr (JStr ''TimeoutError'')"
    by (simp add: TimeoutError_def)
  show ?thesis using s f r c n by blast
qed

text \<open>
  Two instances: an override of 3000 ms, with a network that answers after 5000 ms and
  with one that never answers. The signal carries 3000, the call is aborted, the caller
  receives the Error Object of the \<^verbatim>\<open>TimeoutError\<close>, and the one notice of the default
  error interceptor is shown.
\<close>

theorem request_timeout_aborts_witness:
  "applyRequestInterceptors (http None) ((descriptor ''/users'' GET)\<lparr>timeout := Some 3000\<rparr>) world0
     = (Inr ((descriptor ''/users'' GET)\<lparr>timeout := Some 3000\<rparr>), world0)
   \<and> request_prepare (http None) ((descriptor ''/users'' GET)\<lparr>timeout := Some 3000\<rparr>) world0
     = (Inr (''/api/users'',
             \<lparr>init_method = Some GET,
              init_headers = [''Content-Type'' \<mapsto> ''application/json''] ++ Map.empty,
              signal = Some 3000, body = None\<rparr>), world0)
   \<and> \<not> arrives_within (Some 5000) 3000
   \<and> request (http None)
        (fetch_with_signal (answer_after 5000 (200, Inr (JObj [(''success'', JBool True)]), Inr [])))
        ((descriptor ''/users'' GET)\<lparr>timeout := Some 3000\<rparr>) world0
     = (Inl (apiError_of (JNum 23) (JStr ''signal timed out'') TimeoutError),
        world0\<lparr>message_errors := [JStr ''signal timed out'']\<rparr>)
   \<and> \<not> arrives_within None 3000
   \<and> request (http None) (fetch_with_signal never_answers)
        ((descriptor ''/users'' GET)\<lparr>timeout := Some 3000\<rparr>) world0
     = (Inl (apiError_of (JNum 23) (JStr ''signal timed out'') TimeoutError),
        world0\<lparr>message_errors := [JStr ''signal timed out'']\<rparr>)"
proof -
  let ?cfg = "(descriptor ''/users'' GET)\<lparr>timeout := Some 3000\<rparr>"
  let ?opts = "\<lparr>init_method = Some GET,
              init_headers = [''Content-Type'' \<mapsto> ''application/json''] ++ Map.empty,
              signal = Some 3000, body = None\<rparr>"
  let ?net = "answer_after 5000 (200, Inr (JObj [(''success'', JBool True)]), Inr [])"
  have a: "applyRequestInterceptors (http None) ?cfg world0 = (Inr ?cfg, world0)"
    by (simp add: applyRequestInterceptors_def client_defs defaultRequestInterceptor_def
        storageUtils_get_def world0_def Let_def)
  have p: "request_prepare (http None) ?cfg world0 = (Inr (''/api/users'', ?opts), world0)"
    unfolding request_prepare_def a
    by (simp add: request_fetchOptions_def request_timeout_def
        AbortSignal_timeout_def descriptor_def headers_of_def buildURL_def buildURL_fullURL_def
        startsWith_def client_defs API_BASE_URL_def Let_def)
  have n: "?net ''/api/users'' ?opts world0
             = (Some 5000, Inr (200, Inr (JObj [(''success'', JBool True)]), Inr []), world0)"
    by (simp add: answer_after_def)
  have t: "timeout ?cfg = Some 3000" by (simp add: descriptor_def)
  have late: "\<not> arrives_within (Some 5000) 3000" by (simp add: arrives_within_def)
  have late': "\<not> arrives_within (Some 5000)
               (case timeout ?cfg of
                  None \<Rightarrow> this_timeout (http None)
                | Some t \<Rightarrow> if t \<noteq> 0 then t else this_timeout (http None))"
    using late by (simp add: t)
  have e: "foldl (\<lambda>w f. snd (f (apiError_of (JNum 23) (JStr ''signal timed out'') TimeoutError) w))
          world0 (errorInterceptors (http None))
        = world0\<lparr>message_errors := [JStr ''signal timed out'']\<rparr>"
    by (simp add: client_defs defaultErrorInterceptor_apiError js_or_def message_error_def
        world0_def)
  have n2: "never_answers ''/api/users'' ?opts world0
             = (None, Inl (TypeError ''Failed to fetch''), world0)"
    by (simp add: never_answers_def)
  have never: "\<not> arrives_within None 3000" by (simp add: arrives_within_def)
  have never': "\<not> arrives_within None
               (case timeout ?cfg of
                  None \<Rightarrow> this_timeout (http None)
                | Some t \<Rightarrow> if t \<noteq> 0 then t else this_timeout (http None))"
    using never by (simp add: t)
  show ?thesis
    using a p late never e request_timeout_aborts [where net = ?net, OF a p n late']
      request_timeout_aborts [where net = never_answers, OF a p n2 never']
    by simp
qed

text \<open>
  C6 as stated fails on the configured timeout. With an override of 0 (present) and the
  client default of 10000, the configured timeout of the claim is 0, and a response
  after 5 ms does not arrive within it; yet the signal carries 10000, nothing is
  aborted, and the call resolves with the response.
\<close>

theorem zero_timeout_override_ignored:
  "spec_timeout (http None) ((descriptor ''/users'' GET)\<lparr>timeout := Some 0\<rparr>) = 0
   \<and> \<not> arrives_within (Some 5)
         (spec_timeout (http None) ((descriptor ''/users'' GET)\<lparr>timeout := Some 0\<rparr>))
   \<and> request_prepare (http None) ((descriptor ''/users'' GET)\<lparr>timeout := Some 0\<rparr>) world0
     = (Inr (''/api/users'',
             \<lparr>init_method = Some GET,
              init_headers = [''Content-Type'' \<mapsto> ''application/json''] ++ Map.empty,
              signal = Some 10000, body = None\<rparr>), world0)
   \<and> request (http None)
        (fetch_with_signal (answer_after 5 (200, Inr (JObj [(''success'', JBool True)]), Inr [])))
        ((descriptor ''/users'' GET)\<lparr>timeout := Some 0\<rparr>) world0
     = (Inr (JObj [(''success'', JBool True)]), world0)"
proof -
  let ?cfg = "(descriptor ''/users'' GET)\<lparr>timeout := Some 0\<rparr>"
  let ?opts = "\<lparr>init_method = Some GET,
              init_headers = [''Content-Type'' \<mapsto> ''application/json''] ++ Map.empty,
              signal = Some 10000, body = None\<rparr>"
  have s: "spec_timeout (http None) ?cfg = 0"
    by (simp add: spec_timeout_def descriptor_def)
  have l: "\<not> arrives_within (Some 5) (spec_timeout (http None) ?cfg)"
    by (simp add: s arrives_within_def)
  have p: "request_prepare (http None) ?cfg world0 = (Inr (''/api/users'', ?opts), world0)"
    by (simp add: request_prepare_def applyRequestInterceptors_def client_defs
      defaultRequestInterceptor_def storageUtils_get_def world0_def
      request_fetchOptions_def request_timeout_def
      AbortSignal_timeout_def descriptor_def headers_of_def buildURL_def buildURL_fullURL_def
      startsWith_def API_BASE_URL_def Let_def)
  have f: "fetch_with_signal (answer_after 5 (200, Inr (JObj [(''success'', JBool True)]), Inr []))
             ''/api/users'' ?opts world0
           = (Inr (200, Inr (JObj [(''success'', JBool True)]), Inr []), world0)"
    by (simp add: fetch_with_signal_def answer_after_def arrives_within_def)
  have r: "request (http None)
        (fetch_with_signal (answer_after 5 (200, Inr (JObj [(''success'', JBool True)]), Inr [])))
        ?cfg world0
     = (Inr (JObj [(''success'', JBool True)]), world0)"
    unfolding request_calls_fetch [OF p,
        of "fetch_with_signal (answer_after 5 (200, Inr (JObj [(''success'', JBool True)]), Inr []))"] f
    by (simp add: applyResponseInterceptors_def client_defs Response_js_def
        defaultResponseInterceptor_def ok_def)
  show ?thesis using s l p r by simp
qed

text \<open>
  C7, as the code has it. For every executed request, the headers the transport is
  called with are the default \<^verbatim>\<open>Content-Type: application/json\<close> merged with the headers of
  the descriptor the interceptor phase produced, the latter applied last; when a
  FormData body is sent, that is when the payload of that descriptor is a FormData and
  its method is POST, PUT or PATCH, the \<^verbatim>\<open>Content-Type\<close> entry is deleted from the merged
  headers, the default and an override alike. \<^verbatim>\<open>fetch\<close> is called once, with exactly these
  options, and its outcome decides the call.
\<close>

theorem request_headers_by_payload:
  assumes "applyRequestInterceptors this config w = (Inr finalConfig, w1)"
      and "request_prepare this config w = (Inr (u, opts), w1)"
  shows "init_headers opts =
           (if is_FormData (data finalConfig)
               \<and> (method_of finalConfig = POST \<or> method_of finalConfig = PUT
                    \<or> method_of finalConfig = PATCH)
            then ([''Content-Type'' \<mapsto> ''application/json''] ++ headers_of finalConfig)
                   (''Content-Type'' := None)
            else [''Content-Type'' \<mapsto> ''application/json''] ++ headers_of finalConfig)
         \<and> request this fetch config w =
             (case fetch u opts w1 of
                (Inl e, w2) \<Rightarrow> request_catch this e w2
              | (Inr r, w2) \<Rightarrow>
                  (case applyResponseInterceptors this (Response_js r) w2 of
                     (Inl e, w3) \<Rightarrow> request_catch this e w3
                   | (Inr d, w3) \<Rightarrow> (Inr d, w3)))"
proof -
  have "request_fetchOptions this finalConfig = Inr opts"
    using request_prepare_Inr [OF assms] by simp
  then show ?thesis
    using request_fetchOptions_headers [of this finalConfig opts]
      request_calls_fetch [OF assms(2), of fetch]
    by (auto simp: merged_headers_def)
qed

text \<open>
  Three instances with a stored token. A JSON body on POST is sent with the default
  content type and the bearer header. A FormData body on POST is sent with the bearer
  header and no content type. A FormData payload on GET is not sent, and the default
  content type stays.
\<close>

theorem request_headers_by_payload_witness:
  "request_prepare (http None)
      ((descriptor ''/users'' POST)\<lparr>data := JObj [(''name'', JStr ''Ann'')]\<rparr>) world_token
     = (Inr (''/api/users'',
             \<lparr>init_method = Some POST,
              init_headers = [''Content-Type'' \<mapsto> ''application/json'']
                               ++ [''Authorization'' \<mapsto> ''Bearer abc''],
              signal = Some 10000,
              body = Some (Body_JSON_stringify (JObj [(''name'', JStr ''Ann'')]))\<rparr>), world_token)
   \<and> request_prepare (http None)
      ((descriptor ''/upload'' POST)\<lparr>data := JFormData [(''file'', JStr ''bytes'')]\<rparr>) world_token
     = (Inr (''/api/upload'',
             \<lparr>init_method = Some POST,
              init_headers = ([''Content-Type'' \<mapsto> ''application/json'']
                               ++ [''Authorization'' \<mapsto> ''Bearer abc''])
                             (''Content-Type'' := None),
              signal = Some 10000,
              body = Some (Body_FormData [(''file'', JStr ''bytes'')])\<rparr>), world_token)
   \<and> request_prepare (http None)
      ((descriptor ''/upload'' GET)\<lparr>data := JFormData [(''file'', JStr ''bytes'')]\<rparr>) world_token
     = (Inr (''/api/upload'',
             \<lparr>init_method = Some GET,
              init_headers = [''Content-Type'' \<mapsto> ''application/json'']
                               ++ [''Authorization'' \<mapsto> ''Bearer abc''],
              signal = Some 10000, body = None\<rparr>), world_token)
   \<and> (([''Content-Type'' \<mapsto> ''application/json''] ++ [''Authorization'' \<mapsto> ''Bearer abc''])
        (''Content-Type'' := None)) ''Content-Type'' = None
   \<and> ([''Content-Type'' \<mapsto> ''application/json''] ++ [''Authorization'' \<mapsto> ''Bearer abc''])
        ''Content-Type'' = Some ''application/json''"
proof -
  let ?auth = "Some [''Authorization'' \<mapsto> ''Bearer abc'']"
  let ?c1 = "(descriptor ''/users'' POST)\<lparr>data := JObj [(''name'', JStr ''Ann'')]\<rparr>"
  let ?c2 = "(descriptor ''/upload'' POST)\<lparr>data := JFormData [(''file'', JStr ''bytes'')]\<rparr>"
  let ?c3 = "(descriptor ''/upload'' GET)\<lparr>data := JFormData [(''file'', JStr ''bytes'')]\<rparr>"
  let ?h = "[''Content-Type'' \<mapsto> ''application/json''] ++ [''Authorization'' \<mapsto> ''Bearer abc'']"
  let ?o1 = "\<lparr>init_method = Some POST, init_headers = ?h, signal = Some 10000,
              body = Some (Body_JSON_stringify (JObj [(''name'', JStr ''Ann'')]))\<rparr>"
  let ?o2 = "\<lparr>init_method = Some POST, init_headers = ?h(''Content-Type'' := None),
              signal = Some 10000, body = Some (Body_FormData [(''file'', JStr ''bytes'')])\<rparr>"
  let ?o3 = "\<lparr>init_method = Some GET, init_headers = ?h, signal = Some 10000, body = None\<rparr>"
  have a: "applyRequestInterceptors (http None) ?c1 world_token = (Inr (?c1\<lparr>headers := ?auth\<rparr>), world_token)"
          "applyRequestInterceptors (http None) ?c2 world_token = (Inr (?c2\<lparr>headers := ?auth\<rparr>), world_token)"
          "applyRequestInterceptors (http None) ?c3 world_token = (Inr (?c3\<lparr>headers := ?auth\<rparr>), world_token)"
    by (simp_all add: applyRequestInterceptors_def client_defs defaultRequestInterceptor_def
        storageUtils_get_def world_token_def world0_def descriptor_def headers_of_def Let_def)
  have p1: "request_prepare (http None) ?c1 world_token = (Inr (''/api/users'', ?o1), world_token)"
    unfolding request_prepare_def a
    by (simp add: request_fetchOptions_def request_timeout_def
        AbortSignal_timeout_def descriptor_def headers_of_def buildURL_def buildURL_fullURL_def
        startsWith_def client_defs API_BASE_URL_def Let_def)
  have p2: "request_prepare (http None) ?c2 world_token = (Inr (''/api/upload'', ?o2), world_token)"
    unfolding request_prepare_def a
    by (simp add: request_fetchOptions_def request_timeout_def
        AbortSignal_timeout_def descriptor_def headers_of_def buildURL_def buildURL_fullURL_def
        startsWith_def client_defs API_BASE_URL_def Let_def)
  have p3: "request_prepare (http None) ?c3 world_token = (Inr (''/api/upload'', ?o3), world_token)"
    unfolding request_prepare_def a
    by (simp add: request_fetchOptions_def request_timeout_def
        AbortSignal_timeout_def descriptor_def headers_of_def buildURL_def buildURL_fullURL_def
        startsWith_def client_defs API_BASE_URL_def Let_def)
  have m: "(?h(''Content-Type'' := None)) ''Content-Type'' = None"
          "?h ''Content-Type'' = Some ''application/json''"
    by (simp_all add: map_add_def)
  show ?thesis
    using p1 p2 p3 m
      request_headers_by_payload [OF a(1) p1] request_headers_by_payload [OF a(2) p2]
      request_headers_by_payload [OF a(3) p3]
    by (simp add: method_of_def descriptor_def headers_of_def)
qed

text \<open>
  C7 as stated fails in two places. A FormData body on POST whose descriptor overrides
  \<^verbatim>\<open>Content-Type\<close>: by the claim only the default entry is omitted and the override is
  sent; the code sends no \<^verbatim>\<open>Content-Type\<close> at all. A FormData payload on GET: by the claim
  the default entry is omitted; the code sends no body and keeps the default entry.
\<close>

theorem formdata_content_type_not_as_stated:
  "request_prepare (http None)
      ((descriptor ''/upload'' POST)
         \<lparr>data := JFormData [(''file'', JStr ''bytes'')],
          headers := Some [''Content-Type'' \<mapsto> ''multipart/form-data'']\<rparr>) world0
     = (Inr (''/api/upload'',
             \<lparr>init_method = Some POST,
              init_headers = ([''Content-Type'' \<mapsto> ''application/json'']
                               ++ [''Content-Type'' \<mapsto> ''multipart/form-data''])
                             (''Content-Type'' := None),
              signal = Some 10000,
              body = Some (Body_FormData [(''file'', JStr ''bytes'')])\<rparr>), world0)
   \<and> (([''Content-Type'' \<mapsto> ''application/json''] ++ [''Content-Type'' \<mapsto> ''multipart/form-data''])
        (''Content-Type'' := None)) ''Content-Type'' = None
   \<and> spec_headers
        ((descriptor ''/upload'' POST)
           \<lparr>data := JFormData [(''file'', JStr ''bytes'')],
            headers := Some [''Content-Type'' \<mapsto> ''multipart/form-data'']\<rparr>) ''Content-Type''
       = Some ''multipart/form-data''
   \<and> request_prepare (http None)
      ((descriptor ''/upload'' GET)\<lparr>data := JFormData [(''file'', JStr ''bytes'')]\<rparr>) world0
     = (Inr (''/api/upload'',
             \<lparr>init_method = Some GET,
              init_headers = [''Content-Type'' \<mapsto> ''application/json''] ++ Map.empty,
              signal = Some 10000, body = None\<rparr>), world0)
   \<and> ([''Content-Type'' \<mapsto> ''application/json''] ++ Map.empty) ''Content-Type''
       = Some ''application/json''
   \<and> spec_headers
        ((descriptor ''/upload'' GET)\<lparr>data := JFormData [(''file'', JStr ''bytes'')]\<rparr>)
        ''Content-Type'' = None"
  by (simp add: request_prepare_def applyRequestInterceptors_def client_defs
      defaultRequestInterceptor_def storageUtils_get_def world0_def
      request_fetchOptions_def request_timeout_def spec_headers_def
      AbortSignal_timeout_def descriptor_def headers_of_def buildURL_def buildURL_fullURL_def
      startsWith_def API_BASE_URL_def Let_def map_add_def)

text \<open>
  C10. For every executed request whose descriptor, as the interceptor phase produced it,
  has the method GET or DELETE, the transport is called without a body, whatever the
  data payload. A body is attached only when the method is POST, PUT or PATCH and the
  data is neither \<^verbatim>\<open>null\<close> nor \<^verbatim>\<open>undefined\<close>. On a client with the default interceptors only,
  the method and the data are those of the descriptor of the call.
\<close>

theorem request_body_only_for_post_put_patch:
  assumes "applyRequestInterceptors this config w = (Inr finalConfig, w1)"
      and "request_prepare this config w = (Inr (u, opts), w1)"
  shows "(http_method finalConfig = Some GET \<or> http_method finalConfig = Some DELETE
            \<longrightarrow> body opts = None)
         \<and> (body opts \<noteq> None \<longrightarrow>
              (http_method finalConfig = Some POST \<or> http_method finalConfig = Some PUT
                 \<or> http_method finalConfig = Some PATCH)
              \<and> data finalConfig \<noteq> JNull \<and> data finalConfig \<noteq> JUndefined)
         \<and> (requestInterceptors this = [defaultRequestInterceptor] \<longrightarrow>
              http_method finalConfig = http_method config \<and> data finalConfig = data config)"
proof -
  have opts: "request_fetchOptions this finalConfig = Inr opts"
    using request_prepare_Inr [OF assms] by simp
  have b: "body opts =
     (if truthy (data finalConfig)
         \<and> (http_method finalConfig = Some POST \<or> http_method finalConfig = Some PUT
              \<or> http_method finalConfig = Some PATCH)
      then (case data finalConfig of
              JFormData fd \<Rightarrow> Some (Body_FormData fd)
            | d \<Rightarrow> Some (Body_JSON_stringify d))
      else None)"
    by (rule request_fetchOptions_body [OF opts])
  have 1: "http_method finalConfig = Some GET \<or> http_method finalConfig = Some DELETE
            \<longrightarrow> body opts = None"
    using b by auto
  have 2: "body opts \<noteq> None \<longrightarrow>
              (http_method finalConfig = Some POST \<or> http_method finalConfig = Some PUT
                 \<or> http_method finalConfig = Some PATCH)
              \<and> data finalConfig \<noteq> JNull \<and> data finalConfig \<noteq> JUndefined"
    using b by (auto split: if_splits)
  have 3: "requestInterceptors this = [defaultRequestInterceptor] \<longrightarrow>
              http_method finalConfig = http_method config \<and> data finalConfig = data config"
    using assms(1)
    by (auto simp: applyRequestInterceptors_def defaultRequestInterceptor_def Let_def
        split: if_splits)
  show ?thesis using 1 2 3 by blast
qed

text \<open>
  An instance: a DELETE descriptor with a data payload, on the default client. The
  transport is called without a body.
\<close>

theorem request_body_only_for_post_put_patch_witness:
  "applyRequestInterceptors (http None)
      ((descriptor ''/users/7'' DELETE)\<lparr>data := JObj [(''force'', JBool True)]\<rparr>) world0
     = (Inr ((descriptor ''/users/7'' DELETE)\<lparr>data := JObj [(''force'', JBool True)]\<rparr>), world0)
   \<and> request_prepare (http None)
      ((descriptor ''/users/7'' DELETE)\<lparr>data := JObj [(''force'', JBool True)]\<rparr>) world0
     = (Inr (''/api/users/7'',
             \<lparr>init_method = Some DELETE,
              init_headers = [''Content-Type'' \<mapsto> ''application/json''] ++ Map.empty,
              signal = Some 10000, body = None\<rparr>), world0)
   \<and> http_method ((descriptor ''/users/7'' DELETE)\<lparr>data := JObj [(''force'', JBool True)]\<rparr>)
       = Some DELETE
   \<and> body \<lparr>init_method = Some DELETE,
            init_headers = [''Content-Type'' \<mapsto> ''application/json''] ++ Map.empty,
            signal = Some 10000, body = None\<rparr> = None"
proof -
  let ?cfg = "(descriptor ''/users/7'' DELETE)\<lparr>data := JObj [(''force'', JBool True)]\<rparr>"
  let ?opts = "\<lparr>init_method = Some DELETE,
              init_headers = [''Content-Type'' \<mapsto> ''application/json''] ++ Map.empty,
              signal = Some 10000, body = None\<rparr>"
  have a: "applyRequestInterceptors (http None) ?cfg world0 = (Inr ?cfg, world0)"
    by (simp add: applyRequestInterceptors_def client_defs defaultRequestInterceptor_def
        storageUtils_get_def world0_def Let_def)
  have p: "request_prepare (http None) ?cfg world0 = (Inr (''/api/users/7'', ?opts), world0)"
    unfolding request_prepare_def a
    by (simp add: request_fetchOptions_def request_timeout_def
        AbortSignal_timeout_def descriptor_def headers_of_def buildURL_def buildURL_fullURL_def
        startsWith_def client_defs API_BASE_URL_def Let_def)
  have h: "http_method ?cfg = Some DELETE" by (simp add: descriptor_def)
  show ?thesis
    using a p h request_body_only_for_post_put_patch [OF a p] by simp
qed


section \<open>Upload\<close>

lemma upload_with_token:
  "truthy (storageUtils_get w STORAGE_KEYS_TOKEN) \<Longrightarrow>
   upload this send u file w = (Inl InvalidStateError, w)"
  by (simp add: upload_def xhr_setRequestHeader_def new_XMLHttpRequest_def Let_def)

lemma upload_without_token:
  "\<not> truthy (storageUtils_get w STORAGE_KEYS_TOKEN) \<Longrightarrow>
   upload this send u file w =
     (case send \<lparr>xhr_readyState = OPENED, xhr_method = ''POST'',
                  xhr_url = buildURL this u None, xhr_requestHeaders = []\<rparr>
             (JFormData [(''file'', file)]) w of
        (Load st parsed, w') \<Rightarrow>
          if 200 \<le> st \<and> st < 300
          then (case parsed of
                  Some response \<Rightarrow> (Inr response, w')
                | None \<Rightarrow> (Inl (new_Error (JStr ''Invalid JSON response'')), w'))
          else (Inl (new_Error (JStr (''Upload failed with status '' @ digits st))), w')
      | (Error, w') \<Rightarrow> (Inl (new_Error (JStr ''Upload failed'')), w'))"
  by (simp add: upload_def xhr_open_def new_XMLHttpRequest_def Let_def)

text \<open>
  C8 fails at every upload made while a token is stored. \<^verbatim>\<open>setRequestHeader\<close> is called
  before \<^verbatim>\<open>open\<close>, on a request that is still \<open>UNSENT\<close>, and throws an
  \<^verbatim>\<open>InvalidStateError\<close>: the promise rejects with it, whatever the transport would answer,
  and the request is never opened or sent.
\<close>

theorem upload_with_token_never_sent:
  "upload (http None) send ''/upload/file'' file world_token
     = (Inl InvalidStateError, world_token)"
  by (simp add: upload_with_token storageUtils_get_def world_token_def world0_def)

section \<open>Download\<close>

lemma createObjectURL_window:
  "window_defined w1 \<Longrightarrow>
   createObjectURL blob w1
     = (Inr (''blob:'' @ digits (objectURL_count w1)),
        w1\<lparr>objectURLs := (objectURLs w1)(''blob:'' @ digits (objectURL_count w1) \<mapsto> blob),
           objectURL_count := Suc (objectURL_count w1)\<rparr>)"
  by (simp add: createObjectURL_def Let_def)

lemma download_object_url:
  assumes "fetch (buildURL this u None) (download_options w) w = (Inr (st, js, Inr blob), w1)"
      and "ok st" and "window_defined w1"
  shows "createObjectURL blob w1
           = (Inr (''blob:'' @ digits (objectURL_count w1)),
              w1\<lparr>objectURLs := (objectURLs w1)(''blob:'' @ digits (objectURL_count w1) \<mapsto> blob),
                 objectURL_count := Suc (objectURL_count w1)\<rparr>)
         \<and> (document_body w1 \<noteq> None \<longrightarrow>
               fst (download this fetch u filename w) = Inr ()
               \<and> objectURLs (snd (download this fetch u filename w))
                    (''blob:'' @ digits (objectURL_count w1)) = None)
         \<and> (document_body w1 = None \<longrightarrow>
               fst (download this fetch u filename w)
                 = Inl (TypeError ''Cannot read properties of null'')
               \<and> objectURLs (snd (download this fetch u filename w))
                    (''blob:'' @ digits (objectURL_count w1)) = Some blob
               \<and> message_errors (snd (download this fetch u filename w))
                    = message_errors w1 @ [JStr DOWNLOAD_FAILED_NOTICE])"
proof -
  note f = assms(1)
  have c: "createObjectURL blob w1
           = (Inr (''blob:'' @ digits (objectURL_count w1)),
              w1\<lparr>objectURLs := (objectURLs w1)(''blob:'' @ digits (objectURL_count w1) \<mapsto> blob),
                 objectURL_count := Suc (objectURL_count w1)\<rparr>)"
    by (rule createObjectURL_window [OF assms(3)])
  have s: "document_body w1 \<noteq> None \<longrightarrow>
               fst (download this fetch u filename w) = Inr ()
               \<and> objectURLs (snd (download this fetch u filename w))
                    (''blob:'' @ digits (objectURL_count w1)) = None"
    using assms(2)
    by (auto simp: download_def download_try_def f c appendChild_def click_def removeChild_def
        revokeObjectURL_def Let_def)
  have n: "document_body w1 = None \<longrightarrow>
               fst (download this fetch u filename w)
                 = Inl (TypeError ''Cannot read properties of null'')
               \<and> objectURLs (snd (download this fetch u filename w))
                    (''blob:'' @ digits (objectURL_count w1)) = Some blob
               \<and> message_errors (snd (download this fetch u filename w))
                    = message_errors w1 @ [JStr DOWNLOAD_FAILED_NOTICE]"
    using assms(2)
    by (auto simp: download_def download_try_def f c appendChild_def message_error_def Let_def)
  show ?thesis using c s n by blast
qed

text \<open>
  C9 fails at a download in which a step after the creation of the object URL throws,
  here \<^verbatim>\<open>document.body.appendChild\<close> with \<^verbatim>\<open>document.body\<close> \<^verbatim>\<open>null\<close>: the call rejects, and the
  object URL it created is still registered. \<^verbatim>\<open>revokeObjectURL\<close> is the last statement of
  the \<^verbatim>\<open>try\<close> block, there is no \<^verbatim>\<open>finally\<close>, and the \<^verbatim>\<open>catch\<close> block only notifies and
  rethrows.
\<close>

theorem download_failure_leaves_object_url:
  "fst (download (http None) (respond (200, Inr JNull, Inr ''data'')) ''/files/1''
          (Some ''report.pdf'') world_no_body)
     = Inl (TypeError ''Cannot read properties of null'')
   \<and> objectURLs (snd (download (http None) (respond (200, Inr JNull, Inr ''data'')) ''/files/1''
          (Some ''report.pdf'') world_no_body)) ''blob:0'' = Some ''data''"
proof -
  have d: "digits 0 = ''0''" by (simp add: digits.simps digit_char_def)
  show ?thesis
    by (simp add: download_def download_try_def respond_def ok_def createObjectURL_def
        appendChild_def message_error_def world_no_body_def world0_def d Let_def)
qed

end
